theory Spec2Isabelle
  imports Main
begin

section \<open>Values shared by the packages\<close>

text \<open>
  Instants (\<open>time.Time\<close>, \<open>DATETIME\<close>, \<open>NOW()\<close>) are Unix seconds. Go's \<open>error\<close>
  interface is one datatype holding the sentinel values the packages declare and the
  errors of the collaborators (database/sql, the JWT library, the Vault client).
\<close>

type_synonym time = int

datatype jval = JStr string | JNum int

datatype jwt_flag =
    FlagMalformed | FlagUnverifiable | FlagSignatureInvalid
  | FlagExpired | FlagIssuedAt | FlagNotValidYet

datatype error =
    ErrNoRows
  | ErrDriver
  | ErrDuplicateKey
  | ErrOutOfRange
  | ErrDataTooLong
  | ErrForeignKey
  | StorageErrUserNotFound
  | ErrInvalidCredentials
  | ErrUserExists
  | ErrInvalidToken
  | ErrUserNotFound
  | ErrTokenExpired
  | ErrJWT "jwt_flag list"
  | ErrSubscriptionLimitReached
  | ErrVaultGet
  | ErrVaultSecretNotFound string
  | ErrVaultWrite
  | ErrVaultDelete

section \<open>The relational store\<close>

text \<open>
  The tables of \<open>scripts/vault.sql\<close> that the verified functions touch, each a list of
  rows in table order, with the tables their foreign keys refer to. \<open>faults\<close> is the
  schedule of statement failures of the connection: every statement sent to the server
  consumes the head of the list and fails with a driver error when it is \<open>True\<close>; the
  empty list is a connection on which no further statement fails. A statement that
  writes a row is refused by the server, in its default strict mode, when a string is
  longer than its column (the trailing spaces the server would cut off first are not
  modelled), when a number lies outside the range of an \<open>INT\<close> column, when the
  primary key is already taken, or when a row a \<open>FOREIGN KEY\<close> refers to does not
  exist. No table refers to \<open>secret_metadata\<close>, \<open>subscriptions\<close> or
  \<open>usage_statistics\<close>, so their rows can always be deleted. A string is taken to hold
  one-byte characters, so that its length is the same counted in characters
  (\<open>VARCHAR\<close>) and in bytes (\<open>TEXT\<close>). An instant a caller hands to a statement is
  taken to be one a \<open>DATETIME\<close> column holds. A comparison of strings, in a
  \<open>WHERE\<close> clause or between keys, is equality of the strings: the collation of the
  schema (\<open>utf8mb4_unicode_ci\<close>) also equates strings that differ in letter case,
  accents or trailing spaces, and the strings compared are taken not to differ in
  these alone. A \<open>SELECT\<close> without \<open>ORDER BY\<close> yields its rows in table order.
\<close>

record User =
  u_ID :: string
  u_Email :: string
  u_HashedPassword :: string
  u_FirstName :: string
  u_LastName :: string
  u_Role :: string

record Organization =
  o_ID :: string
  o_Name :: string
  o_Description :: string
  o_PlanID :: string
  o_OwnerID :: string

record Project =
  p_ID :: string
  p_Name :: string
  p_Description :: string
  p_OrganizationID :: string
  p_CreatedBy :: string

record SecretMetadata =
  m_ID :: string
  m_Name :: string
  m_Description :: string
  m_OrganizationID :: string
  m_ProjectID :: string
  m_Environment :: string
  m_CreatedBy :: string
  m_CreatedAt :: time
  m_UpdatedAt :: time
  m_Version :: int

record Subscription =
  sub_ID :: string
  sub_OrganizationID :: string
  sub_PlanID :: string
  sub_Status :: string
  sub_SecretsLimit :: int
  sub_StartDate :: time
  sub_EndDate :: time
  sub_CreatedAt :: time
  sub_UpdatedAt :: time

record UsageStatistics =
  us_id :: string
  us_organization_id :: string
  us_secret_count :: int
  us_api_calls :: int
  us_last_updated :: time

record database =
  users :: "User list"
  organizations :: "Organization list"
  projects :: "Project list"
  secret_metadata :: "SecretMetadata list"
  subscriptions :: "Subscription list"
  usage_statistics :: "UsageStatistics list"
  faults :: "bool list"

definition INT_MAX :: int where
  "INT_MAX = 2147483647"

definition INT_MIN :: int where
  "INT_MIN = - 2147483648"

text \<open>A string fits a \<open>VARCHAR(n)\<close> column (for \<open>TEXT\<close>, \<open>n\<close> is 65535) and a number
  an \<open>INT\<close> column.\<close>

definition fits :: "nat \<Rightarrow> string \<Rightarrow> bool" where
  "fits n s = (length s \<le> n)"

definition in_INT :: "int \<Rightarrow> bool" where
  "in_INT n = (INT_MIN \<le> n \<and> n \<le> INT_MAX)"

definition stmt_fails :: "database \<Rightarrow> bool" where
  "stmt_fails db = (case faults db of [] \<Rightarrow> False | b # _ \<Rightarrow> b)"

definition next_stmt :: "database \<Rightarrow> database" where
  "next_stmt db = db\<lparr>faults := tl (faults db)\<rparr>"

text \<open>\<open>db.QueryRowContext(...).Scan(...)\<close> on the rows a \<open>SELECT\<close> yields: the first
  row, \<open>sql.ErrNoRows\<close> when there is none.\<close>

definition QueryRow :: "database \<Rightarrow> 'r list \<Rightarrow> (error + 'r) \<times> database" where
  "QueryRow db rows =
     (if stmt_fails db then (Inl ErrDriver, next_stmt db)
      else case rows of
             [] \<Rightarrow> (Inl ErrNoRows, next_stmt db)
           | r # _ \<Rightarrow> (Inr r, next_stmt db))"

subsection \<open>Statements on \<open>usage_statistics\<close>\<close>

text \<open>\<open>UPDATE usage_statistics SET secret_count = secret_count + 1, last_updated = NOW()
  WHERE organization_id = ?\<close>; the result is the number of rows affected.\<close>

definition update_count_incr :: "time \<Rightarrow> database \<Rightarrow> string \<Rightarrow> (error + nat) \<times> database" where
  "update_count_incr now db orgID =
     (if stmt_fails db then (Inl ErrDriver, next_stmt db)
      else if list_ex (\<lambda>r. us_organization_id r = orgID \<and> INT_MAX \<le> us_secret_count r)
                (usage_statistics db)
      then (Inl ErrOutOfRange, next_stmt db)
      else (Inr (length (filter (\<lambda>r. us_organization_id r = orgID) (usage_statistics db))),
            next_stmt (db\<lparr>usage_statistics :=
              map (\<lambda>r. if us_organization_id r = orgID
                        then r\<lparr>us_secret_count := us_secret_count r + 1, us_last_updated := now\<rparr>
                        else r)
                  (usage_statistics db)\<rparr>)))"

text \<open>\<open>INSERT INTO usage_statistics (id, organization_id, secret_count, api_calls,
  last_updated) VALUES (?, ?, 1, 0, NOW())\<close>. The table declares \<open>id VARCHAR(36) PRIMARY
  KEY\<close>, \<open>organization_id VARCHAR(36)\<close> and \<open>FOREIGN KEY (organization_id) REFERENCES
  organizations(id)\<close>; \<open>usage_statistics_violation\<close> is the error the server refuses
  the row with, if any.\<close>

definition usage_statistics_violation :: "database \<Rightarrow> string \<Rightarrow> string \<Rightarrow> error option" where
  "usage_statistics_violation db newID orgID =
     (if \<not> (fits 36 newID \<and> fits 36 orgID) then Some ErrDataTooLong
      else if list_ex (\<lambda>r. us_id r = newID) (usage_statistics db) then Some ErrDuplicateKey
      else if \<not> list_ex (\<lambda>r. o_ID r = orgID) (organizations db) then Some ErrForeignKey
      else None)"

definition insert_usage :: "time \<Rightarrow> database \<Rightarrow> string \<Rightarrow> string \<Rightarrow> error option \<times> database" where
  "insert_usage now db newID orgID =
     (if stmt_fails db then (Some ErrDriver, next_stmt db)
      else case usage_statistics_violation db newID orgID of
             Some err \<Rightarrow> (Some err, next_stmt db)
           | None \<Rightarrow>
               (None,
                next_stmt (db\<lparr>usage_statistics := usage_statistics db @
                  [\<lparr>us_id = newID, us_organization_id = orgID, us_secret_count = 1,
                    us_api_calls = 0, us_last_updated = now\<rparr>]\<rparr>)))"

text \<open>\<open>UPDATE usage_statistics SET secret_count = GREATEST(0, secret_count - 1),
  last_updated = NOW() WHERE organization_id = ?\<close>.\<close>

definition update_count_decr :: "time \<Rightarrow> database \<Rightarrow> string \<Rightarrow> error option \<times> database" where
  "update_count_decr now db orgID =
     (if stmt_fails db then (Some ErrDriver, next_stmt db)
      else (None,
            next_stmt (db\<lparr>usage_statistics :=
              map (\<lambda>r. if us_organization_id r = orgID
                        then r\<lparr>us_secret_count := max 0 (us_secret_count r - 1),
                               us_last_updated := now\<rparr>
                        else r)
                  (usage_statistics db)\<rparr>)))"

subsection \<open>\<open>storage.SecretCountRepository\<close> (repository_impl.go)\<close>

definition SecretCountRepository_GetSecretsCount ::
  "database \<Rightarrow> string \<Rightarrow> (error + int) \<times> database" where
  "SecretCountRepository_GetSecretsCount db orgID =
     (case QueryRow db (map us_secret_count
              (filter (\<lambda>r. us_organization_id r = orgID) (usage_statistics db))) of
        (Inl err, db') \<Rightarrow> (if err = ErrNoRows then (Inr 0, db') else (Inl err, db'))
      | (Inr count, db') \<Rightarrow> (Inr count, db'))"

text \<open>The identifier of an inserted usage row is \<open>uuid.New().String()\<close>, supplied by
  the caller of the model. \<open>result.RowsAffected()\<close> does not fail with the MySQL
  driver: the number of rows is part of the statement's result.\<close>

definition SecretCountRepository_IncrementSecretsCount ::
  "time \<Rightarrow> string \<Rightarrow> database \<Rightarrow> string \<Rightarrow> error option \<times> database" where
  "SecretCountRepository_IncrementSecretsCount now uuid db orgID =
     (case update_count_incr now db orgID of
        (Inl err, db') \<Rightarrow> (Some err, db')
      | (Inr rows, db') \<Rightarrow>
          (if rows = 0 then insert_usage now db' uuid orgID else (None, db')))"

definition SecretCountRepository_DecrementSecretsCount ::
  "time \<Rightarrow> database \<Rightarrow> string \<Rightarrow> error option \<times> database" where
  "SecretCountRepository_DecrementSecretsCount now db orgID = update_count_decr now db orgID"

text \<open>\<open>SELECT s.secrets_limit FROM subscriptions s WHERE s.organization_id = ? AND
  s.status = 'active' ORDER BY s.end_date DESC LIMIT 1\<close>: the rows in descending order
  of \<open>end_date\<close> (rows with equal dates keep their table order).\<close>

definition order_by_end_date_desc :: "Subscription list \<Rightarrow> Subscription list" where
  "order_by_end_date_desc rows = sort_key (\<lambda>s. - sub_EndDate s) rows"

definition select_limit_rows :: "database \<Rightarrow> string \<Rightarrow> int list" where
  "select_limit_rows db orgID =
     take 1 (map sub_SecretsLimit (order_by_end_date_desc
       (filter (\<lambda>s. sub_OrganizationID s = orgID \<and> sub_Status s = ''active'')
          (subscriptions db))))"

definition SecretCountRepository_GetSecretsLimit ::
  "database \<Rightarrow> string \<Rightarrow> (error + int) \<times> database" where
  "SecretCountRepository_GetSecretsLimit db orgID =
     (case QueryRow db (select_limit_rows db orgID) of
        (Inl err, db') \<Rightarrow> (if err = ErrNoRows then (Inr 5, db') else (Inl err, db'))
      | (Inr limit, db') \<Rightarrow> (Inr limit, db'))"

subsection \<open>\<open>storage.SecretsRepository\<close> (mysql/secrets_repository.go)\<close>

definition SecretsRepository_incrementSecretsCount ::
  "time \<Rightarrow> string \<Rightarrow> database \<Rightarrow> string \<Rightarrow> error option \<times> database" where
  "SecretsRepository_incrementSecretsCount now uuid db orgID =
     (case update_count_incr now db orgID of
        (Inl err, db') \<Rightarrow> (Some err, db')
      | (Inr rows, db') \<Rightarrow>
          (if rows = 0 then insert_usage now db' uuid orgID else (None, db')))"

definition SecretsRepository_decrementSecretsCount ::
  "time \<Rightarrow> database \<Rightarrow> string \<Rightarrow> error option \<times> database" where
  "SecretsRepository_decrementSecretsCount now db orgID = update_count_decr now db orgID"

text \<open>\<open>INSERT INTO secret_metadata (id, name, description, organization_id, project_id,
  environment, created_by, created_at, updated_at, version) VALUES (?, ?, ?, ?, ?, ?, ?,
  NOW(), NOW(), ?)\<close>. The table declares \<open>id VARCHAR(36) PRIMARY KEY\<close>, \<open>name
  VARCHAR(255)\<close>, \<open>description TEXT\<close>, \<open>organization_id\<close>, \<open>project_id\<close>,
  \<open>environment\<close> and \<open>created_by VARCHAR(36)\<close>, \<open>version INT\<close>, and foreign keys
  from \<open>organization_id\<close> to \<open>organizations(id)\<close>, from \<open>project_id\<close> to
  \<open>projects(id)\<close> and from \<open>created_by\<close> to \<open>users(id)\<close>;
  \<open>secret_metadata_violation\<close> is the error the server refuses the row with, if any.\<close>

definition secret_metadata_violation :: "database \<Rightarrow> SecretMetadata \<Rightarrow> error option" where
  "secret_metadata_violation db m =
     (if \<not> (fits 36 (m_ID m) \<and> fits 255 (m_Name m) \<and> fits 65535 (m_Description m) \<and>
             fits 36 (m_OrganizationID m) \<and> fits 36 (m_ProjectID m) \<and>
             fits 36 (m_Environment m) \<and> fits 36 (m_CreatedBy m))
      then Some ErrDataTooLong
      else if \<not> in_INT (m_Version m) then Some ErrOutOfRange
      else if list_ex (\<lambda>r. m_ID r = m_ID m) (secret_metadata db) then Some ErrDuplicateKey
      else if \<not> (list_ex (\<lambda>r. o_ID r = m_OrganizationID m) (organizations db) \<and>
                  list_ex (\<lambda>r. p_ID r = m_ProjectID m) (projects db) \<and>
                  list_ex (\<lambda>r. u_ID r = m_CreatedBy m) (users db))
      then Some ErrForeignKey
      else None)"

definition insert_metadata :: "time \<Rightarrow> database \<Rightarrow> SecretMetadata \<Rightarrow> error option \<times> database" where
  "insert_metadata now db m =
     (if stmt_fails db then (Some ErrDriver, next_stmt db)
      else case secret_metadata_violation db m of
             Some err \<Rightarrow> (Some err, next_stmt db)
           | None \<Rightarrow>
               (None,
                next_stmt (db\<lparr>secret_metadata := secret_metadata db @
                  [m\<lparr>m_CreatedAt := now, m_UpdatedAt := now\<rparr>]\<rparr>)))"

text \<open>\<open>CreateSecretMetadata\<close>: \<open>metaID\<close> stands for the identifier generated when the
  metadata carries none, \<open>usageID\<close> for the one of a usage row created on the way. The
  timestamps of the row are the server's \<open>NOW()\<close>.\<close>

definition SecretsRepository_CreateSecretMetadata ::
  "time \<Rightarrow> string \<Rightarrow> string \<Rightarrow> database \<Rightarrow> SecretMetadata \<Rightarrow> error option \<times> database" where
  "SecretsRepository_CreateSecretMetadata now metaID usageID db metadata =
     (let metadata' = (if m_ID metadata = [] then metadata\<lparr>m_ID := metaID\<rparr> else metadata)
      in case insert_metadata now db metadata' of
           (Some err, db') \<Rightarrow> (Some err, db')
         | (None, db') \<Rightarrow>
             SecretsRepository_incrementSecretsCount now usageID db' (m_OrganizationID metadata'))"

definition SecretsRepository_GetSecretMetadataByPath ::
  "database \<Rightarrow> string \<Rightarrow> string \<Rightarrow> string \<Rightarrow> string \<Rightarrow>
     (error + SecretMetadata option) \<times> database" where
  "SecretsRepository_GetSecretMetadataByPath db orgID projectID env name =
     (case QueryRow db (filter (\<lambda>r. m_OrganizationID r = orgID \<and> m_ProjectID r = projectID \<and>
                                    m_Environment r = env \<and> m_Name r = name)
                          (secret_metadata db)) of
        (Inl err, db') \<Rightarrow> (if err = ErrNoRows then (Inr None, db') else (Inl err, db'))
      | (Inr metadata, db') \<Rightarrow> (Inr (Some metadata), db'))"

text \<open>\<open>DELETE FROM secret_metadata WHERE id = ?\<close>, then the usage counter.\<close>

definition delete_metadata :: "database \<Rightarrow> string \<Rightarrow> error option \<times> database" where
  "delete_metadata db rowID =
     (if stmt_fails db then (Some ErrDriver, next_stmt db)
      else (None,
            next_stmt (db\<lparr>secret_metadata :=
              filter (\<lambda>r. m_ID r \<noteq> rowID) (secret_metadata db)\<rparr>)))"

definition SecretsRepository_DeleteSecretMetadata ::
  "time \<Rightarrow> database \<Rightarrow> string \<Rightarrow> string \<Rightarrow> error option \<times> database" where
  "SecretsRepository_DeleteSecretMetadata now db rowID orgID =
     (case delete_metadata db rowID of
        (Some err, db') \<Rightarrow> (Some err, db')
      | (None, db') \<Rightarrow> SecretsRepository_decrementSecretsCount now db' orgID)"

definition SecretsRepository_DeleteSecretMetadataByPath ::
  "time \<Rightarrow> database \<Rightarrow> string \<Rightarrow> string \<Rightarrow> string \<Rightarrow> string \<Rightarrow> error option \<times> database" where
  "SecretsRepository_DeleteSecretMetadataByPath now db orgID projectID env name =
     (case SecretsRepository_GetSecretMetadataByPath db orgID projectID env name of
        (Inl err, db') \<Rightarrow> (Some err, db')
      | (Inr None, db') \<Rightarrow> (None, db')
      | (Inr (Some metadata), db') \<Rightarrow>
          SecretsRepository_DeleteSecretMetadata now db' (m_ID metadata) orgID)"

definition SecretsRepository_GetSecretsCount ::
  "database \<Rightarrow> string \<Rightarrow> (error + int) \<times> database" where
  "SecretsRepository_GetSecretsCount db orgID =
     (case QueryRow db (map us_secret_count
              (filter (\<lambda>r. us_organization_id r = orgID) (usage_statistics db))) of
        (Inl err, db') \<Rightarrow> (if err = ErrNoRows then (Inr 0, db') else (Inl err, db'))
      | (Inr count, db') \<Rightarrow> (Inr count, db'))"

definition SecretsRepository_GetSecretsLimit ::
  "database \<Rightarrow> string \<Rightarrow> (error + int) \<times> database" where
  "SecretsRepository_GetSecretsLimit db orgID =
     (case QueryRow db (select_limit_rows db orgID) of
        (Inl err, db') \<Rightarrow> (if err = ErrNoRows then (Inr 0, db') else (Inl err, db'))
      | (Inr limit, db') \<Rightarrow> (Inr limit, db'))"

subsection \<open>\<open>storage.SubscriptionService\<close> (subscription_service.go)\<close>

text \<open>\<open>... WHERE organization_id = ? AND status = 'active' AND end_date > NOW()
  ORDER BY end_date DESC LIMIT 1\<close>.\<close>

definition GetActiveSubscription ::
  "time \<Rightarrow> database \<Rightarrow> string \<Rightarrow> (error + Subscription option) \<times> database" where
  "GetActiveSubscription now db orgID =
     (case QueryRow db (take 1 (order_by_end_date_desc
              (filter (\<lambda>s. sub_OrganizationID s = orgID \<and> sub_Status s = ''active'' \<and>
                            now < sub_EndDate s)
                 (subscriptions db)))) of
        (Inl err, db') \<Rightarrow> (if err = ErrNoRows then (Inr None, db') else (Inl err, db'))
      | (Inr subscription, db') \<Rightarrow> (Inr (Some subscription), db'))"

text \<open>\<open>UPDATE subscriptions SET status = 'cancelled', updated_at = NOW() WHERE id = ?\<close>.\<close>

definition cancelSubscription :: "time \<Rightarrow> database \<Rightarrow> string \<Rightarrow> error option \<times> database" where
  "cancelSubscription now db subscriptionID =
     (if stmt_fails db then (Some ErrDriver, next_stmt db)
      else (None,
            next_stmt (db\<lparr>subscriptions :=
              map (\<lambda>s. if sub_ID s = subscriptionID
                        then s\<lparr>sub_Status := ''cancelled'', sub_UpdatedAt := now\<rparr>
                        else s)
                  (subscriptions db)\<rparr>)))"

text \<open>\<open>INSERT INTO subscriptions (id, organization_id, plan_id, status, secrets_limit,
  start_date, end_date, created_at, updated_at) VALUES (?, ?, ?, ?, ?, ?, ?, NOW(),
  NOW())\<close>. The table declares \<open>id VARCHAR(36) PRIMARY KEY\<close>, \<open>organization_id\<close> and
  \<open>plan_id VARCHAR(36)\<close>, \<open>status VARCHAR(50)\<close>, \<open>secrets_limit INT\<close> and \<open>FOREIGN KEY
  (organization_id) REFERENCES organizations(id)\<close>.\<close>

definition subscription_violation :: "database \<Rightarrow> Subscription \<Rightarrow> error option" where
  "subscription_violation db s =
     (if \<not> (fits 36 (sub_ID s) \<and> fits 36 (sub_OrganizationID s) \<and> fits 36 (sub_PlanID s) \<and>
             fits 50 (sub_Status s))
      then Some ErrDataTooLong
      else if \<not> in_INT (sub_SecretsLimit s) then Some ErrOutOfRange
      else if list_ex (\<lambda>r. sub_ID r = sub_ID s) (subscriptions db) then Some ErrDuplicateKey
      else if \<not> list_ex (\<lambda>r. o_ID r = sub_OrganizationID s) (organizations db)
      then Some ErrForeignKey
      else None)"

definition insert_subscription :: "time \<Rightarrow> database \<Rightarrow> Subscription \<Rightarrow> error option \<times> database" where
  "insert_subscription now db s =
     (if stmt_fails db then (Some ErrDriver, next_stmt db)
      else case subscription_violation db s of
             Some err \<Rightarrow> (Some err, next_stmt db)
           | None \<Rightarrow>
               (None,
                next_stmt (db\<lparr>subscriptions := subscriptions db @
                  [s\<lparr>sub_CreatedAt := now, sub_UpdatedAt := now\<rparr>]\<rparr>)))"

definition CreateSubscription ::
  "time \<Rightarrow> string \<Rightarrow> database \<Rightarrow> Subscription \<Rightarrow> error option \<times> database" where
  "CreateSubscription now uuid db subscription =
     (let subscription' =
            (if sub_ID subscription = [] then subscription\<lparr>sub_ID := uuid\<rparr> else subscription)
      in case GetActiveSubscription now db (sub_OrganizationID subscription') of
           (Inl err, db1) \<Rightarrow> (Some err, db1)
         | (Inr None, db1) \<Rightarrow> insert_subscription now db1 subscription'
         | (Inr (Some existingSub), db1) \<Rightarrow>
             (case cancelSubscription now db1 (sub_ID existingSub) of
                (Some err, db2) \<Rightarrow> (Some err, db2)
              | (None, db2) \<Rightarrow> insert_subscription now db2 subscription'))"


definition CanCreateSecret :: "database \<Rightarrow> string \<Rightarrow> (error + bool) \<times> database" where
  "CanCreateSecret db orgID =
     (case SecretCountRepository_GetSecretsCount db orgID of
        (Inl err, db1) \<Rightarrow> (Inl err, db1)
      | (Inr count, db1) \<Rightarrow>
          (case SecretCountRepository_GetSecretsLimit db1 orgID of
             (Inl err, db2) \<Rightarrow> (Inl err, db2)
           | (Inr limit, db2) \<Rightarrow> (Inr (count < limit), db2)))"

section \<open>The value store\<close>

text \<open>
  Vault's KV version 2 engine is an external collaborator, taken by its capability
  contract: \<open>Put\<close> stores the fields under a path, \<open>Get\<close> returns the fields or
  reports absence, \<open>Delete\<close> removes them. \<open>vfaults\<close> schedules the failures of the
  requests sent to it, as \<open>faults\<close> does for the database.
\<close>

record vault =
  kv :: "string \<rightharpoonup> (string \<rightharpoonup> jval)"
  vfaults :: "bool list"

definition request_fails :: "vault \<Rightarrow> bool" where
  "request_fails v = (case vfaults v of [] \<Rightarrow> False | b # _ \<Rightarrow> b)"

definition next_request :: "vault \<Rightarrow> vault" where
  "next_request v = v\<lparr>vfaults := tl (vfaults v)\<rparr>"

datatype kv_reply = KVFailure | KVAbsent | KVData "string \<rightharpoonup> jval"

definition KVv2_Get :: "vault \<Rightarrow> string \<Rightarrow> kv_reply \<times> vault" where
  "KVv2_Get v path =
     (if request_fails v then (KVFailure, next_request v)
      else case kv v path of
             None \<Rightarrow> (KVAbsent, next_request v)
           | Some data \<Rightarrow> (KVData data, next_request v))"

definition KVv2_Put :: "vault \<Rightarrow> string \<Rightarrow> (string \<rightharpoonup> jval) \<Rightarrow> bool \<times> vault" where
  "KVv2_Put v path data =
     (if request_fails v then (False, next_request v)
      else (True, next_request (v\<lparr>kv := (kv v)(path \<mapsto> data)\<rparr>)))"

definition KVv2_Delete :: "vault \<Rightarrow> string \<Rightarrow> bool \<times> vault" where
  "KVv2_Delete v path =
     (if request_fails v then (False, next_request v)
      else (True, next_request (v\<lparr>kv := (kv v)(path := None)\<rparr>)))"

subsection \<open>\<open>vault.Client\<close> (vault/client.go)\<close>

definition Client_GetSecret :: "vault \<Rightarrow> string \<Rightarrow> (error + (string \<rightharpoonup> jval)) \<times> vault" where
  "Client_GetSecret v path =
     (case KVv2_Get v path of
        (KVFailure, v') \<Rightarrow> (Inl ErrVaultGet, v')
      | (KVAbsent, v') \<Rightarrow> (Inl (ErrVaultSecretNotFound path), v')
      | (KVData data, v') \<Rightarrow> (Inr data, v'))"

definition Client_WriteSecret :: "vault \<Rightarrow> string \<Rightarrow> (string \<rightharpoonup> jval) \<Rightarrow> error option \<times> vault" where
  "Client_WriteSecret v path data =
     (case KVv2_Put v path data of
        (False, v') \<Rightarrow> (Some ErrVaultWrite, v')
      | (True, v') \<Rightarrow> (None, v'))"

definition Client_DeleteSecret :: "vault \<Rightarrow> string \<Rightarrow> error option \<times> vault" where
  "Client_DeleteSecret v path =
     (case KVv2_Delete v path of
        (False, v') \<Rightarrow> (Some ErrVaultDelete, v')
      | (True, v') \<Rightarrow> (None, v'))"

subsection \<open>\<open>vault.Service\<close> (vault/service.go)\<close>

text \<open>\<open>models.Secret\<close>. \<open>zero_time\<close> is the zero value of \<open>time.Time\<close>
  (January 1, year 1, 00:00 UTC), the empty string and \<open>0\<close> the zero values of the
  other fields.\<close>

record Secret =
  s_ID :: string
  s_Name :: string
  s_Value :: string
  s_Description :: string
  s_OrganizationID :: string
  s_ProjectID :: string
  s_Environment :: string
  s_CreatedBy :: string
  s_CreatedAt :: time
  s_UpdatedAt :: time
  s_Version :: int

definition zero_time :: time where
  "zero_time = - 62135596800"

definition buildSecretPath :: "string \<Rightarrow> string \<Rightarrow> string \<Rightarrow> string \<Rightarrow> string" where
  "buildSecretPath orgID projectID env name =
     orgID @ ''/'' @ projectID @ ''/'' @ env @ ''/'' @ name"

text \<open>The type assertion \<open>x.(string)\<close> on a map entry: the string and \<open>ok\<close>, or not ok.\<close>

fun as_string :: "jval option \<Rightarrow> string option" where
  "as_string (Some (JStr s)) = Some s"
| "as_string _ = None"

definition vault_Service_StoreSecret :: "time \<Rightarrow> vault \<Rightarrow> Secret \<Rightarrow> error option \<times> vault" where
  "vault_Service_StoreSecret now v secret =
     (let path = buildSecretPath (s_OrganizationID secret) (s_ProjectID secret)
                   (s_Environment secret) (s_Name secret);
          data = [''value'' \<mapsto> JStr (s_Value secret),
                  ''created_at'' \<mapsto> JNum now,
                  ''created_by'' \<mapsto> JStr (s_CreatedBy secret),
                  ''description'' \<mapsto> JStr (s_Description secret)]
      in Client_WriteSecret v path data)"

definition vault_Service_GetSecret ::
  "vault \<Rightarrow> string \<Rightarrow> string \<Rightarrow> string \<Rightarrow> string \<Rightarrow> (error + Secret) \<times> vault" where
  "vault_Service_GetSecret v orgID projectID env name =
     (case Client_GetSecret v (buildSecretPath orgID projectID env name) of
        (Inl err, v') \<Rightarrow> (Inl err, v')
      | (Inr data, v') \<Rightarrow>
          (let secret = \<lparr>s_ID = [], s_Name = name, s_Value = [], s_Description = [],
                          s_OrganizationID = orgID, s_ProjectID = projectID,
                          s_Environment = env, s_CreatedBy = [],
                          s_CreatedAt = zero_time, s_UpdatedAt = zero_time, s_Version = 0\<rparr>;
               secret1 = (case as_string (data ''value'') of
                            Some value \<Rightarrow> secret\<lparr>s_Value := value\<rparr> | None \<Rightarrow> secret);
               secret2 = (case as_string (data ''description'') of
                            Some desc \<Rightarrow> secret1\<lparr>s_Description := desc\<rparr> | None \<Rightarrow> secret1);
               secret3 = (case as_string (data ''created_by'') of
                            Some createdBy \<Rightarrow> secret2\<lparr>s_CreatedBy := createdBy\<rparr>
                          | None \<Rightarrow> secret2)
           in (Inr secret3, v')))"

definition vault_Service_DeleteSecret ::
  "vault \<Rightarrow> string \<Rightarrow> string \<Rightarrow> string \<Rightarrow> string \<Rightarrow> error option \<times> vault" where
  "vault_Service_DeleteSecret v orgID projectID env name =
     Client_DeleteSecret v (buildSecretPath orgID projectID env name)"

subsection \<open>\<open>handlers.SecretsHandler\<close> (api/handlers/secrets.go)\<close>

text \<open>
  The handler holds a \<open>vault.Service\<close> and nothing else. \<open>world\<close> is the state of both
  stores of the running system, so that what a request leaves untouched can be stated.
  A response is its status code, with the encoded secret for a successful read. A
  request to create carries the decoded body (\<open>None\<close> when the JSON does not decode)
  and the \<open>userID\<close> of the request context (\<open>None\<close> when the authentication
  middleware has set none: the type assertion panics and the \<open>Recover\<close> middleware
  answers 500).
\<close>

record world =
  w_vault :: vault
  w_db :: database

datatype http_response = HttpError nat | HttpStatus nat | HttpJSON Secret

record create_request =
  body :: "Secret option"
  ctx_userID :: "string option"

definition SecretsHandler_GetSecret ::
  "world \<Rightarrow> string \<Rightarrow> string \<Rightarrow> string \<Rightarrow> string \<Rightarrow> http_response \<times> world" where
  "SecretsHandler_GetSecret w orgID projectID env name =
     (case vault_Service_GetSecret (w_vault w) orgID projectID env name of
        (Inl err, v') \<Rightarrow> (HttpError 404, w\<lparr>w_vault := v'\<rparr>)
      | (Inr secret, v') \<Rightarrow> (HttpJSON secret, w\<lparr>w_vault := v'\<rparr>))"

definition SecretsHandler_CreateSecret ::
  "time \<Rightarrow> world \<Rightarrow> create_request \<Rightarrow> http_response \<times> world" where
  "SecretsHandler_CreateSecret now w r =
     (case body r of
        None \<Rightarrow> (HttpError 400, w)
      | Some secret \<Rightarrow>
          (case ctx_userID r of
             None \<Rightarrow> (HttpError 500, w)
           | Some userID \<Rightarrow>
               (case vault_Service_StoreSecret now (w_vault w) (secret\<lparr>s_CreatedBy := userID\<rparr>) of
                  (Some err, v') \<Rightarrow> (HttpError 500, w\<lparr>w_vault := v'\<rparr>)
                | (None, v') \<Rightarrow> (HttpStatus 201, w\<lparr>w_vault := v'\<rparr>))))"

definition SecretsHandler_DeleteSecret ::
  "world \<Rightarrow> string \<Rightarrow> string \<Rightarrow> string \<Rightarrow> string \<Rightarrow> http_response \<times> world" where
  "SecretsHandler_DeleteSecret w orgID projectID env name =
     (case vault_Service_DeleteSecret (w_vault w) orgID projectID env name of
        (Some err, v') \<Rightarrow> (HttpError 500, w\<lparr>w_vault := v'\<rparr>)
      | (None, v') \<Rightarrow> (HttpStatus 204, w\<lparr>w_vault := v'\<rparr>))"

section \<open>Tokens\<close>

text \<open>
  \<open>github.com/golang-jwt/jwt/v4\<close> is a library, not part of the repository. A token
  string is either no JWT at all or a signing method, a claim set and a signature. The
  signature is the key it was made with: it verifies under a key exactly when it was
  made with that key (the HMAC is taken as unforgeable). \<open>jwt_Parse\<close> follows version
  4 of the library: the key function first, then the registered claims \<open>exp\<close>,
  \<open>iat\<close> and \<open>nbf\<close> against the clock, then the signature; the validation error holds
  one flag for every check that failed, and \<open>errors.Is(err, jwt.ErrTokenExpired)\<close>
  is the presence of \<open>FlagExpired\<close>. A registered claim that is absent passes its
  check, and so does one whose number is 0, which the library reads as absent; one
  that is no number fails it. At the instant \<open>exp\<close> itself the token has expired. The
  releases of version 4 differ in whether the claims are still checked once the signature
  has failed to verify (here they are); for the tokens of the theorems below both
  orders give the same error.
\<close>

datatype signing_method = SigningMethodHMAC | SigningMethodOther

record jwt =
  jwt_alg :: signing_method
  jwt_claims :: "string \<rightharpoonup> jval"
  jwt_key :: string

datatype token = Garbage | Signed jwt

definition claims_flags :: "time \<Rightarrow> (string \<rightharpoonup> jval) \<Rightarrow> jwt_flag list" where
  "claims_flags now c =
     (case c ''exp'' of
        None \<Rightarrow> []
      | Some (JNum e) \<Rightarrow> (if e = 0 \<or> now < e then [] else [FlagExpired])
      | Some (JStr _) \<Rightarrow> [FlagExpired]) @
     (case c ''iat'' of
        None \<Rightarrow> []
      | Some (JNum i) \<Rightarrow> (if i = 0 \<or> i \<le> now then [] else [FlagIssuedAt])
      | Some (JStr _) \<Rightarrow> [FlagIssuedAt]) @
     (case c ''nbf'' of
        None \<Rightarrow> []
      | Some (JNum n) \<Rightarrow> (if n = 0 \<or> n \<le> now then [] else [FlagNotValidYet])
      | Some (JStr _) \<Rightarrow> [FlagNotValidYet])"

definition jwt_Parse :: "(jwt \<Rightarrow> string option) \<Rightarrow> time \<Rightarrow> token \<Rightarrow> jwt_flag list + jwt" where
  "jwt_Parse keyfunc now tokenString =
     (case tokenString of
        Garbage \<Rightarrow> Inl [FlagMalformed]
      | Signed t \<Rightarrow>
          (case keyfunc t of
             None \<Rightarrow> Inl [FlagUnverifiable]
           | Some key \<Rightarrow>
               (let flags = claims_flags now (jwt_claims t) @
                            (if jwt_key t = key then [] else [FlagSignatureInvalid])
                in if flags = [] then Inr t else Inl flags)))"

text \<open>The key function every service passes to \<open>jwt.Parse\<close>: an HMAC method or an
  error, then the shared secret.\<close>

definition keyFunc :: "string \<Rightarrow> jwt \<Rightarrow> string option" where
  "keyFunc secret t = (if jwt_alg t = SigningMethodHMAC then Some secret else None)"

text \<open>The configuration of a service; the durations are in seconds. Signing with
  HS256 and a byte-string key does not fail: \<open>generateToken\<close> always returns a token,
  and the error branches of its callers stay as the source has them. A token that
  \<open>jwt.Parse\<close> returns without error is valid and carries map claims, so the two
  checks \<open>parseToken\<close> and \<open>VerifyToken\<close> make after the error check never fail.\<close>

record auth_config =
  jwtSecret :: string
  jwtExpiry :: int
  refreshTime :: int

record TokenResponse =
  tr_Token :: token
  tr_RefreshToken :: "token option"
  tr_ExpiresAt :: time
  tr_UserID :: string

subsection \<open>\<open>auth.Service\<close> of auth/service.go: one token, no type\<close>

definition Service_generateToken :: "auth_config \<Rightarrow> time \<Rightarrow> string \<Rightarrow> error + token \<times> time" where
  "Service_generateToken cfg now userID =
     (let expiresAt = now + jwtExpiry cfg;
          claims = [''sub'' \<mapsto> JStr userID, ''exp'' \<mapsto> JNum expiresAt, ''iat'' \<mapsto> JNum now]
      in Inr (Signed \<lparr>jwt_alg = SigningMethodHMAC, jwt_claims = claims,
                      jwt_key = jwtSecret cfg\<rparr>, expiresAt))"

definition Service_VerifyToken :: "auth_config \<Rightarrow> time \<Rightarrow> token \<Rightarrow> error + string" where
  "Service_VerifyToken cfg now tokenString =
     (case jwt_Parse (keyFunc (jwtSecret cfg)) now tokenString of
        Inl flags \<Rightarrow> Inl (ErrJWT flags)
      | Inr t \<Rightarrow>
          (case as_string (jwt_claims t ''sub'') of
             None \<Rightarrow> Inl ErrInvalidToken
           | Some userID \<Rightarrow> Inr userID))"

subsection \<open>\<open>mysql.UsersRepository\<close>\<close>

definition UsersRepository_GetUserByID :: "database \<Rightarrow> string \<Rightarrow> (error + User) \<times> database" where
  "UsersRepository_GetUserByID db userID =
     (case QueryRow db (filter (\<lambda>u. u_ID u = userID) (users db)) of
        (Inl err, db') \<Rightarrow>
          (if err = ErrNoRows then (Inl StorageErrUserNotFound, db') else (Inl err, db'))
      | (Inr user, db') \<Rightarrow> (Inr user, db'))"

subsection \<open>\<open>auth.ServiceImproved\<close> (auth/service_improved.go)\<close>

definition ServiceImproved_generateToken ::
  "auth_config \<Rightarrow> time \<Rightarrow> string \<Rightarrow> string \<Rightarrow> int \<Rightarrow> error + token \<times> time" where
  "ServiceImproved_generateToken cfg now userID tokenType expiry =
     (let expiresAt = now + expiry;
          claims = [''sub'' \<mapsto> JStr userID, ''type'' \<mapsto> JStr tokenType,
                    ''exp'' \<mapsto> JNum expiresAt, ''iat'' \<mapsto> JNum now]
      in Inr (Signed \<lparr>jwt_alg = SigningMethodHMAC, jwt_claims = claims,
                      jwt_key = jwtSecret cfg\<rparr>, expiresAt))"

definition ServiceImproved_generateTokenPair ::
  "auth_config \<Rightarrow> time \<Rightarrow> string \<Rightarrow> error + token \<times> token \<times> time" where
  "ServiceImproved_generateTokenPair cfg now userID =
     (case ServiceImproved_generateToken cfg now userID ''access'' (jwtExpiry cfg) of
        Inl err \<Rightarrow> Inl err
      | Inr (accessToken, expiresAt) \<Rightarrow>
          (case ServiceImproved_generateToken cfg now userID ''refresh'' (refreshTime cfg) of
             Inl err \<Rightarrow> Inl err
           | Inr (refreshToken, _) \<Rightarrow> Inr (accessToken, refreshToken, expiresAt)))"

definition ServiceImproved_parseToken ::
  "auth_config \<Rightarrow> time \<Rightarrow> token \<Rightarrow> error + (string \<rightharpoonup> jval)" where
  "ServiceImproved_parseToken cfg now tokenString =
     (case jwt_Parse (keyFunc (jwtSecret cfg)) now tokenString of
        Inl flags \<Rightarrow>
          (if FlagExpired \<in> set flags then Inl ErrTokenExpired else Inl ErrInvalidToken)
      | Inr t \<Rightarrow> Inr (jwt_claims t))"

definition ServiceImproved_VerifyToken :: "auth_config \<Rightarrow> time \<Rightarrow> token \<Rightarrow> error + string" where
  "ServiceImproved_VerifyToken cfg now tokenString =
     (case ServiceImproved_parseToken cfg now tokenString of
        Inl err \<Rightarrow> Inl err
      | Inr claims \<Rightarrow>
          (case as_string (claims ''type'') of
             None \<Rightarrow> Inl ErrInvalidToken
           | Some tokenType \<Rightarrow>
               (if tokenType \<noteq> ''access'' then Inl ErrInvalidToken
                else case as_string (claims ''sub'') of
                       None \<Rightarrow> Inl ErrInvalidToken
                     | Some userID \<Rightarrow> Inr userID)))"

definition ServiceImproved_RefreshToken ::
  "auth_config \<Rightarrow> time \<Rightarrow> database \<Rightarrow> token \<Rightarrow> (error + TokenResponse) \<times> database" where
  "ServiceImproved_RefreshToken cfg now db refreshToken =
     (case ServiceImproved_parseToken cfg now refreshToken of
        Inl err \<Rightarrow> (Inl err, db)
      | Inr claims \<Rightarrow>
          (case as_string (claims ''type'') of
             None \<Rightarrow> (Inl ErrInvalidToken, db)
           | Some tokenType \<Rightarrow>
               (if tokenType \<noteq> ''refresh'' then (Inl ErrInvalidToken, db)
                else case as_string (claims ''sub'') of
                       None \<Rightarrow> (Inl ErrInvalidToken, db)
                     | Some userID \<Rightarrow>
                         (case UsersRepository_GetUserByID db userID of
                            (Inl err, db') \<Rightarrow>
                              (if err = StorageErrUserNotFound then (Inl ErrUserNotFound, db')
                               else (Inl err, db'))
                          | (Inr user, db') \<Rightarrow>
                              (case ServiceImproved_generateTokenPair cfg now (u_ID user) of
                                 Inl err \<Rightarrow> (Inl err, db')
                               | Inr (token, newRefreshToken, expiresAt) \<Rightarrow>
                                   (Inr \<lparr>tr_Token = token,
                                         tr_RefreshToken = Some newRefreshToken,
                                         tr_ExpiresAt = expiresAt,
                                         tr_UserID = u_ID user\<rparr>, db'))))))"

subsection \<open>\<open>auth.Service\<close> of unnamed/part_005: access and refresh tokens\<close>

definition Service005_generateToken ::
  "auth_config \<Rightarrow> time \<Rightarrow> string \<Rightarrow> string \<Rightarrow> int \<Rightarrow> error + token \<times> time" where
  "Service005_generateToken cfg now userID tokenType expiry =
     (let expiresAt = now + expiry;
          claims = [''sub'' \<mapsto> JStr userID, ''type'' \<mapsto> JStr tokenType,
                    ''exp'' \<mapsto> JNum expiresAt, ''iat'' \<mapsto> JNum now]
      in Inr (Signed \<lparr>jwt_alg = SigningMethodHMAC, jwt_claims = claims,
                      jwt_key = jwtSecret cfg\<rparr>, expiresAt))"

definition Service005_generateTokenPair ::
  "auth_config \<Rightarrow> time \<Rightarrow> string \<Rightarrow> error + token \<times> token \<times> time" where
  "Service005_generateTokenPair cfg now userID =
     (case Service005_generateToken cfg now userID ''access'' (jwtExpiry cfg) of
        Inl err \<Rightarrow> Inl err
      | Inr (accessToken, expiresAt) \<Rightarrow>
          (case Service005_generateToken cfg now userID ''refresh'' (refreshTime cfg) of
             Inl err \<Rightarrow> Inl err
           | Inr (refreshToken, _) \<Rightarrow> Inr (accessToken, refreshToken, expiresAt)))"

definition Service005_parseToken ::
  "auth_config \<Rightarrow> time \<Rightarrow> token \<Rightarrow> error + (string \<rightharpoonup> jval)" where
  "Service005_parseToken cfg now tokenString =
     (case jwt_Parse (keyFunc (jwtSecret cfg)) now tokenString of
        Inl flags \<Rightarrow>
          (if FlagExpired \<in> set flags then Inl ErrTokenExpired else Inl ErrInvalidToken)
      | Inr t \<Rightarrow> Inr (jwt_claims t))"

definition Service005_VerifyToken :: "auth_config \<Rightarrow> time \<Rightarrow> token \<Rightarrow> error + string" where
  "Service005_VerifyToken cfg now tokenString =
     (case Service005_parseToken cfg now tokenString of
        Inl err \<Rightarrow> Inl err
      | Inr claims \<Rightarrow>
          (case as_string (claims ''type'') of
             None \<Rightarrow> Inl ErrInvalidToken
           | Some tokenType \<Rightarrow>
               (if tokenType \<noteq> ''access'' then Inl ErrInvalidToken
                else case as_string (claims ''sub'') of
                       None \<Rightarrow> Inl ErrInvalidToken
                     | Some userID \<Rightarrow> Inr userID)))"

definition Service005_RefreshToken ::
  "auth_config \<Rightarrow> time \<Rightarrow> database \<Rightarrow> token \<Rightarrow> (error + TokenResponse) \<times> database" where
  "Service005_RefreshToken cfg now db refreshToken =
     (case Service005_parseToken cfg now refreshToken of
        Inl err \<Rightarrow> (Inl err, db)
      | Inr claims \<Rightarrow>
          (case as_string (claims ''type'') of
             None \<Rightarrow> (Inl ErrInvalidToken, db)
           | Some tokenType \<Rightarrow>
               (if tokenType \<noteq> ''refresh'' then (Inl ErrInvalidToken, db)
                else case as_string (claims ''sub'') of
                       None \<Rightarrow> (Inl ErrInvalidToken, db)
                     | Some userID \<Rightarrow>
                         (case Service005_generateTokenPair cfg now userID of
                            Inl err \<Rightarrow> (Inl err, db)
                          | Inr (token, newRefreshToken, expiresAt) \<Rightarrow>
                              (Inr \<lparr>tr_Token = token,
                                    tr_RefreshToken = Some newRefreshToken,
                                    tr_ExpiresAt = expiresAt,
                                    tr_UserID = userID\<rparr>, db)))))"

section \<open>Properties and sample states\<close>

subsection \<open>What the usage counter of an organization reads\<close>

text \<open>The \<open>secret_count\<close> of the first usage row of the organization, \<open>0\<close> when it
  has none: the value \<open>GetSecretsCount\<close> returns on a working connection.\<close>

definition count_in :: "UsageStatistics list \<Rightarrow> string \<Rightarrow> int" where
  "count_in rows orgID =
     (case filter (\<lambda>r. us_organization_id r = orgID) rows of
        [] \<Rightarrow> 0
      | r # _ \<Rightarrow> us_secret_count r)"

text \<open>The secret \<open>vault.Service.GetSecret\<close> builds from the fields stored under a path.\<close>

definition secret_of_data ::
  "string \<Rightarrow> string \<Rightarrow> string \<Rightarrow> string \<Rightarrow> (string \<rightharpoonup> jval) \<Rightarrow> Secret" where
  "secret_of_data orgID projectID env name data =
     \<lparr>s_ID = [], s_Name = name,
      s_Value = (case as_string (data ''value'') of Some x \<Rightarrow> x | None \<Rightarrow> []),
      s_Description = (case as_string (data ''description'') of Some x \<Rightarrow> x | None \<Rightarrow> []),
      s_OrganizationID = orgID, s_ProjectID = projectID, s_Environment = env,
      s_CreatedBy = (case as_string (data ''created_by'') of Some x \<Rightarrow> x | None \<Rightarrow> []),
      s_CreatedAt = zero_time, s_UpdatedAt = zero_time, s_Version = 0\<rparr>"

subsection \<open>Active subscriptions\<close>

text \<open>A subscription is active at an instant when its status is \<open>active\<close> and its
  \<open>end_date\<close> lies in the future, as \<open>GetActiveSubscription\<close> selects.\<close>

definition is_active :: "time \<Rightarrow> Subscription \<Rightarrow> bool" where
  "is_active t s = (sub_Status s = ''active'' \<and> t < sub_EndDate s)"

definition active_subscriptions :: "time \<Rightarrow> string \<Rightarrow> database \<Rightarrow> Subscription list" where
  "active_subscriptions t orgID db =
     filter (\<lambda>s. sub_OrganizationID s = orgID \<and> is_active t s) (subscriptions db)"



subsection \<open>Calls of \<open>CreateSubscription\<close> in flight\<close>

text \<open>
  \<open>CreateSubscription\<close> sends its statements one by one, outside any transaction, on a
  pool of up to 25 connections (mysql/connection.go), so statements of other requests
  can run between them. A call in flight is the statement it sends next, with what it
  holds: the subscription with its identifier set and, before the \<open>UPDATE\<close>, the
  identifier of the subscription its lookup found. \<open>CreateSubscription_step\<close> runs
  that statement: the call returns (\<open>Inl\<close>, with the error if any), or goes on to its
  next statement (\<open>Inr\<close>).
\<close>

datatype call =
    AtSelect Subscription
  | AtUpdate Subscription string
  | AtInsert Subscription

definition CreateSubscription_call :: "string \<Rightarrow> Subscription \<Rightarrow> call" where
  "CreateSubscription_call uuid subscription =
     AtSelect (if sub_ID subscription = [] then subscription\<lparr>sub_ID := uuid\<rparr> else subscription)"







subsection \<open>The limit as the specification words it\<close>

text \<open>
  The specification's \<open>GetLimit\<close>: the \<open>secrets_limit\<close> of the organization's active
  subscription, active meaning status \<open>active\<close> and \<open>end_date\<close> not yet past, the one
  ending last when several qualify, and the free-tier default 5 when none does. It is
  written from the specification, to be compared with the repository's lookups.
\<close>

definition spec_active :: "time \<Rightarrow> string \<Rightarrow> Subscription \<Rightarrow> bool" where
  "spec_active now orgID s =
     (sub_OrganizationID s = orgID \<and> sub_Status s = ''active'' \<and> now \<le> sub_EndDate s)"

definition spec_GetLimit :: "time \<Rightarrow> database \<Rightarrow> string \<Rightarrow> int" where
  "spec_GetLimit now db orgID =
     (case order_by_end_date_desc (filter (spec_active now orgID) (subscriptions db)) of
        [] \<Rightarrow> 5
      | s # _ \<Rightarrow> sub_SecretsLimit s)"

subsection \<open>Sample states\<close>

definition healthy_vault :: vault where
  "healthy_vault = \<lparr>kv = Map.empty, vfaults = []\<rparr>"

definition empty_db :: database where
  "empty_db = \<lparr>users = [], organizations = [], projects = [], secret_metadata = [],
               subscriptions = [], usage_statistics = [], faults = []\<rparr>"

text \<open>The account of the user \<open>alice\<close>: her organization \<open>org-1\<close> with its project
  \<open>billing\<close>, no secret, no subscription and no usage row.\<close>

definition alice :: User where
  "alice = \<lparr>u_ID = ''alice'', u_Email = ''alice@example.com'', u_HashedPassword = ''hash'',
     u_FirstName = ''Alice'', u_LastName = ''Martin'', u_Role = ''user''\<rparr>"

definition org_1 :: Organization where
  "org_1 = \<lparr>o_ID = ''org-1'', o_Name = ''Acme'', o_Description = [], o_PlanID = [],
     o_OwnerID = ''alice''\<rparr>"

definition billing :: Project where
  "billing = \<lparr>p_ID = ''billing'', p_Name = ''Billing'', p_Description = [],
     p_OrganizationID = ''org-1'', p_CreatedBy = ''alice''\<rparr>"

definition account_db :: database where
  "account_db = empty_db\<lparr>users := [alice], organizations := [org_1], projects := [billing]\<rparr>"

definition api_key :: Secret where
  "api_key = \<lparr>s_ID = [], s_Name = ''api-key'', s_Value = ''hunter2'',
     s_Description = ''billing key'', s_OrganizationID = ''org-1'', s_ProjectID = ''billing'',
     s_Environment = ''prod'', s_CreatedBy = [], s_CreatedAt = zero_time,
     s_UpdatedAt = zero_time, s_Version = 1\<rparr>"

definition api_key_metadata :: SecretMetadata where
  "api_key_metadata = \<lparr>m_ID = ''m-1'', m_Name = ''api-key'', m_Description = ''billing key'',
     m_OrganizationID = ''org-1'', m_ProjectID = ''billing'', m_Environment = ''prod'',
     m_CreatedBy = ''alice'', m_CreatedAt = 0, m_UpdatedAt = 0, m_Version = 1\<rparr>"

definition usage_row :: "int \<Rightarrow> UsageStatistics" where
  "usage_row n = \<lparr>us_id = ''us-1'', us_organization_id = ''org-1'', us_secret_count = n,
     us_api_calls = 0, us_last_updated = 0\<rparr>"

text \<open>An organization without subscription (limit 5) whose counter already reads five.\<close>

definition at_quota :: world where
  "at_quota = \<lparr>w_vault = healthy_vault, w_db = account_db\<lparr>usage_statistics := [usage_row 5]\<rparr>\<rparr>"

text \<open>One secret: its metadata row, its value, and a counter that reads one.\<close>

definition stored_world :: world where
  "stored_world =
     \<lparr>w_vault = healthy_vault\<lparr>kv := [''org-1/billing/prod/api-key'' \<mapsto>
          [''value'' \<mapsto> JStr ''hunter2'', ''created_at'' \<mapsto> JNum 0,
           ''created_by'' \<mapsto> JStr ''alice'', ''description'' \<mapsto> JStr ''billing key'']]\<rparr>,
      w_db = account_db\<lparr>secret_metadata := [api_key_metadata],
                        usage_statistics := [usage_row 1]\<rparr>\<rparr>"

text \<open>The value is stored and no metadata row exists; the metadata row exists and the
  value store holds nothing; neither exists.\<close>

definition value_without_metadata :: world where
  "value_without_metadata = stored_world\<lparr>w_db := empty_db\<rparr>"

definition metadata_without_value :: world where
  "metadata_without_value = stored_world\<lparr>w_vault := healthy_vault\<rparr>"

definition nothing_stored :: world where
  "nothing_stored = \<lparr>w_vault = healthy_vault, w_db = empty_db\<rparr>"

text \<open>A subscription of \<open>org-1\<close>, status \<open>active\<close>, with a limit and an end date.\<close>

definition plan :: "string \<Rightarrow> int \<Rightarrow> time \<Rightarrow> Subscription" where
  "plan planID limit ends =
     \<lparr>sub_ID = [], sub_OrganizationID = ''org-1'', sub_PlanID = planID, sub_Status = ''active'',
      sub_SecretsLimit = limit, sub_StartDate = 0, sub_EndDate = ends,
      sub_CreatedAt = 0, sub_UpdatedAt = 0\<rparr>"

definition one_subscription :: database where
  "one_subscription = snd (CreateSubscription 0 ''s-1'' account_db (plan ''startup'' 50 100))"

definition two_subscriptions :: database where
  "two_subscriptions =
     snd (CreateSubscription 10 ''s-2'' one_subscription (plan ''business'' 500 200))"

text \<open>Two calls for \<open>org-1\<close> in flight at instant 10, and the table after both have
  looked up the active subscription (there is none) and then both have inserted.\<close>

definition first_call :: call where
  "first_call = CreateSubscription_call ''s-1'' (plan ''startup'' 50 100)"

definition second_call :: call where
  "second_call = CreateSubscription_call ''s-2'' (plan ''business'' 500 200)"

definition both_inserted :: database where
  "both_inserted = account_db\<lparr>subscriptions :=
     [(plan ''startup'' 50 100)\<lparr>sub_ID := ''s-1'', sub_CreatedAt := 10, sub_UpdatedAt := 10\<rparr>,
      (plan ''business'' 500 200)\<lparr>sub_ID := ''s-2'', sub_CreatedAt := 10, sub_UpdatedAt := 10\<rparr>]\<rparr>"

definition demo_config :: auth_config where
  "demo_config = \<lparr>jwtSecret = ''s3cr3t'', jwtExpiry = 3600, refreshTime = 604800\<rparr>"

text \<open>The token the services sign with the secret of \<open>demo_config\<close>.\<close>

definition minted :: "string \<Rightarrow> string \<Rightarrow> time \<Rightarrow> time \<Rightarrow> jwt" where
  "minted userID ty issued expires =
     \<lparr>jwt_alg = SigningMethodHMAC,
      jwt_claims = [''sub'' \<mapsto> JStr userID, ''type'' \<mapsto> JStr ty,
                    ''exp'' \<mapsto> JNum expires, ''iat'' \<mapsto> JNum issued],
      jwt_key = ''s3cr3t''\<rparr>"

text \<open>A subscription whose status is still \<open>active\<close> and whose end date, 100, has
  passed at instant 200.\<close>

definition expired_subscription :: database where
  "expired_subscription =
     account_db\<lparr>subscriptions := [(plan ''startup'' 50 100)\<lparr>sub_ID := ''s-1''\<rparr>]\<rparr>"

section \<open>Working stores\<close>

lemmas db_prims = stmt_fails_def next_stmt_def QueryRow_def

lemmas schema = fits_def in_INT_def INT_MIN_def INT_MAX_def usage_statistics_violation_def
  secret_metadata_violation_def subscription_violation_def

lemmas vault_prims = request_fails_def next_request_def KVv2_Get_def KVv2_Put_def
  KVv2_Delete_def Client_GetSecret_def Client_WriteSecret_def Client_DeleteSecret_def

lemmas fixtures = healthy_vault_def empty_db_def alice_def org_1_def billing_def account_db_def
  api_key_def api_key_metadata_def usage_row_def
  at_quota_def stored_world_def value_without_metadata_def metadata_without_value_def
  nothing_stored_def plan_def expired_subscription_def demo_config_def minted_def
  first_call_def second_call_def both_inserted_def

lemmas db_eval = db_prims update_count_incr_def insert_usage_def update_count_decr_def
  SecretCountRepository_GetSecretsCount_def SecretCountRepository_GetSecretsLimit_def
  SecretsRepository_GetSecretsCount_def SecretsRepository_GetSecretsLimit_def
  select_limit_rows_def order_by_end_date_desc_def CanCreateSecret_def
  SecretsRepository_incrementSecretsCount_def SecretsRepository_decrementSecretsCount_def
  insert_metadata_def SecretsRepository_CreateSecretMetadata_def
  SecretsRepository_GetSecretMetadataByPath_def delete_metadata_def
  SecretsRepository_DeleteSecretMetadata_def SecretsRepository_DeleteSecretMetadataByPath_def
  schema

lemmas vault_eval = vault_prims buildSecretPath_def vault_Service_StoreSecret_def
  vault_Service_GetSecret_def vault_Service_DeleteSecret_def SecretsHandler_GetSecret_def
  SecretsHandler_CreateSecret_def SecretsHandler_DeleteSecret_def

lemmas token_eval = claims_flags_def jwt_Parse_def keyFunc_def
  Service_generateToken_def Service_VerifyToken_def UsersRepository_GetUserByID_def
  ServiceImproved_generateToken_def ServiceImproved_generateTokenPair_def
  ServiceImproved_parseToken_def ServiceImproved_VerifyToken_def ServiceImproved_RefreshToken_def
  Service005_generateToken_def Service005_generateTokenPair_def
  Service005_parseToken_def Service005_VerifyToken_def Service005_RefreshToken_def

lemma next_stmt_healthy [simp]: "faults db = [] \<Longrightarrow> next_stmt db = db"
  by (simp add: next_stmt_def)

lemma stmt_fails_healthy [simp]: "faults db = [] \<Longrightarrow> \<not> stmt_fails db"
  by (simp add: stmt_fails_def)

lemma next_request_healthy [simp]: "vfaults v = [] \<Longrightarrow> next_request v = v"
  by (simp add: next_request_def)

lemma request_fails_healthy [simp]: "vfaults v = [] \<Longrightarrow> \<not> request_fails v"
  by (simp add: request_fails_def)

lemma no_rows_iff: "(filter P xs = []) = (\<not> list_ex P xs)"
  by (induction xs) auto

subsection \<open>The usage counter\<close>

lemma count_in_Nil [simp]: "count_in [] orgID = 0"
  by (simp add: count_in_def)

lemma count_in_Cons [simp]:
  "count_in (r # rows) orgID =
     (if us_organization_id r = orgID then us_secret_count r else count_in rows orgID)"
  by (simp add: count_in_def)

lemma count_in_append:
  "count_in (xs @ ys) orgID =
     (if list_ex (\<lambda>r. us_organization_id r = orgID) xs then count_in xs orgID
      else count_in ys orgID)"
  by (induction xs) auto

lemma count_in_absent:
  "\<not> list_ex (\<lambda>r. us_organization_id r = orgID) xs \<Longrightarrow> count_in xs orgID = 0"
  by (induction xs) auto

lemma SecretsRepository_GetSecretsCount_healthy:
  "faults db = [] \<Longrightarrow>
   SecretsRepository_GetSecretsCount db orgID = (Inr (count_in (usage_statistics db) orgID), db)"
  by (simp add: SecretsRepository_GetSecretsCount_def QueryRow_def count_in_def
      split: list.splits)

lemma SecretCountRepository_GetSecretsCount_healthy:
  "faults db = [] \<Longrightarrow>
   SecretCountRepository_GetSecretsCount db orgID =
     (Inr (count_in (usage_statistics db) orgID), db)"
  by (simp add: SecretCountRepository_GetSecretsCount_def QueryRow_def count_in_def
      split: list.splits)

lemma count_in_incr:
  "count_in (map (\<lambda>r. if us_organization_id r = orgID
                       then r\<lparr>us_secret_count := us_secret_count r + 1, us_last_updated := now\<rparr>
                       else r) xs) orgID =
   (if list_ex (\<lambda>r. us_organization_id r = orgID) xs then count_in xs orgID + 1 else 0)"
  by (induction xs) auto

lemma count_in_decr:
  "count_in (map (\<lambda>r. if us_organization_id r = orgID
                       then r\<lparr>us_secret_count := max 0 (us_secret_count r - 1),
                              us_last_updated := now\<rparr>
                       else r) xs) orgID =
   max 0 (count_in xs orgID - 1)"
  by (induction xs) auto

lemma usage_ids_incr:
  "list_ex (\<lambda>r. us_id r = u)
     (map (\<lambda>r. if us_organization_id r = orgID
                then r\<lparr>us_secret_count := us_secret_count r + 1, us_last_updated := now\<rparr>
                else r) xs)
   = list_ex (\<lambda>r. us_id r = u) xs"
  by (induction xs) auto

lemma usage_org_incr:
  "list_ex (\<lambda>r. us_organization_id r = o')
     (map (\<lambda>r. if us_organization_id r = orgID
                then r\<lparr>us_secret_count := us_secret_count r + 1, us_last_updated := now\<rparr>
                else r) xs)
   = list_ex (\<lambda>r. us_organization_id r = o') xs"
  by (induction xs) auto

lemma update_count_incr_healthy:
  assumes "faults db = []"
    and "\<not> list_ex (\<lambda>r. us_organization_id r = orgID \<and> INT_MAX \<le> us_secret_count r)
             (usage_statistics db)"
  shows "update_count_incr now db orgID =
     (Inr (length (filter (\<lambda>r. us_organization_id r = orgID) (usage_statistics db))),
      db\<lparr>usage_statistics :=
            map (\<lambda>r. if us_organization_id r = orgID
                      then r\<lparr>us_secret_count := us_secret_count r + 1, us_last_updated := now\<rparr>
                      else r)
                (usage_statistics db)\<rparr>)"
  using assms by (simp add: update_count_incr_def)

lemma incrementSecretsCount_healthy:
  assumes "faults db = []"
    and "\<not> list_ex (\<lambda>r. us_organization_id r = orgID \<and> INT_MAX \<le> us_secret_count r)
             (usage_statistics db)"
    and "\<not> list_ex (\<lambda>r. us_id r = uuid) (usage_statistics db)"
    and "fits 36 uuid" and "fits 36 orgID"
    and "list_ex (\<lambda>r. o_ID r = orgID) (organizations db)"
  shows "fst (SecretsRepository_incrementSecretsCount now uuid db orgID) = None \<and>
     count_in (usage_statistics (snd (SecretsRepository_incrementSecretsCount now uuid db orgID)))
         orgID = count_in (usage_statistics db) orgID + 1 \<and>
     secret_metadata (snd (SecretsRepository_incrementSecretsCount now uuid db orgID)) =
       secret_metadata db \<and>
     faults (snd (SecretsRepository_incrementSecretsCount now uuid db orgID)) = []"
proof (cases "list_ex (\<lambda>r. us_organization_id r = orgID) (usage_statistics db)")
  case True
  then show ?thesis
    using assms(1)
    by (simp add: SecretsRepository_incrementSecretsCount_def
        update_count_incr_healthy[OF assms(1,2)] no_rows_iff count_in_incr)
next
  case False
  then show ?thesis
    using assms(1,3,4,5,6)
    by (simp add: SecretsRepository_incrementSecretsCount_def
        update_count_incr_healthy[OF assms(1,2)] no_rows_iff insert_usage_def
        usage_statistics_violation_def
        usage_ids_incr count_in_append usage_org_incr count_in_incr count_in_absent)
qed

lemma SecretCountRepository_GetSecretsLimit_healthy:
  "faults db = [] \<Longrightarrow> \<exists>l. SecretCountRepository_GetSecretsLimit db orgID = (Inr l, db)"
  by (simp add: SecretCountRepository_GetSecretsLimit_def QueryRow_def split: list.splits)

lemma CanCreateSecret_healthy:
  assumes "faults db = []"
  shows "\<exists>c l. fst (SecretCountRepository_GetSecretsCount db orgID) = Inr c \<and>
               fst (SecretCountRepository_GetSecretsLimit db orgID) = Inr l \<and>
               CanCreateSecret db orgID = (Inr (c < l), db)"
proof -
  obtain l where l: "SecretCountRepository_GetSecretsLimit db orgID = (Inr l, db)"
    using SecretCountRepository_GetSecretsLimit_healthy[OF assms] by blast
  show ?thesis
    using l by (simp add: CanCreateSecret_def SecretCountRepository_GetSecretsCount_healthy[OF assms])
qed

subsection \<open>Metadata rows\<close>

lemma insert_metadata_healthy:
  assumes "faults db = []" "secret_metadata_violation db m = None"
  shows "insert_metadata now db m =
     (None, db\<lparr>secret_metadata :=
                 secret_metadata db @ [m\<lparr>m_CreatedAt := now, m_UpdatedAt := now\<rparr>]\<rparr>)"
  using assms by (simp add: insert_metadata_def)

lemma violation_None_org:
  assumes "secret_metadata_violation db m = None"
  shows "fits 36 (m_OrganizationID m) \<and>
         list_ex (\<lambda>r. o_ID r = m_OrganizationID m) (organizations db)"
  using assms by (simp add: secret_metadata_violation_def split: if_splits)

lemma CreateSecretMetadata_healthy:
  assumes h: "faults db = []"
    and accepted: "secret_metadata_violation db
                     (m\<lparr>m_ID := (if m_ID m = [] then metaID else m_ID m)\<rparr>) = None"
    and range: "\<not> list_ex (\<lambda>r. us_organization_id r = m_OrganizationID m \<and>
                              INT_MAX \<le> us_secret_count r) (usage_statistics db)"
    and fresh_usage: "\<not> list_ex (\<lambda>r. us_id r = usageID) (usage_statistics db)"
    and fits_usage: "fits 36 usageID"
  shows "fst (SecretsRepository_CreateSecretMetadata now metaID usageID db m) = None \<and>
     secret_metadata (snd (SecretsRepository_CreateSecretMetadata now metaID usageID db m)) =
       secret_metadata db @
         [m\<lparr>m_ID := (if m_ID m = [] then metaID else m_ID m),
            m_CreatedAt := now, m_UpdatedAt := now\<rparr>] \<and>
     count_in (usage_statistics (snd (SecretsRepository_CreateSecretMetadata now metaID usageID db m)))
         (m_OrganizationID m) = count_in (usage_statistics db) (m_OrganizationID m) + 1 \<and>
     faults (snd (SecretsRepository_CreateSecretMetadata now metaID usageID db m)) = []"
proof -
  let ?m = "if m_ID m = [] then m\<lparr>m_ID := metaID\<rparr> else m"
  let ?db1 = "db\<lparr>secret_metadata :=
                    secret_metadata db @ [?m\<lparr>m_CreatedAt := now, m_UpdatedAt := now\<rparr>]\<rparr>"
  let ?inc = "SecretsRepository_incrementSecretsCount now usageID ?db1 (m_OrganizationID m)"
  have m: "?m = m\<lparr>m_ID := (if m_ID m = [] then metaID else m_ID m)\<rparr>" by simp
  have org: "m_OrganizationID ?m = m_OrganizationID m" by simp
  have ins: "insert_metadata now db ?m = (None, ?db1)"
    by (rule insert_metadata_healthy[OF h]) (cases "m_ID m = []", use accepted in simp_all)
  have ref: "fits 36 (m_OrganizationID m) \<and>
             list_ex (\<lambda>r. o_ID r = m_OrganizationID m) (organizations db)"
    using violation_None_org[OF accepted] by simp
  have inc: "fst ?inc = None \<and>
     count_in (usage_statistics (snd ?inc)) (m_OrganizationID m) =
       count_in (usage_statistics ?db1) (m_OrganizationID m) + 1 \<and>
     secret_metadata (snd ?inc) = secret_metadata ?db1 \<and>
     faults (snd ?inc) = []"
    by (rule incrementSecretsCount_healthy) (use h range fresh_usage fits_usage ref in simp_all)
  have unfold: "SecretsRepository_CreateSecretMetadata now metaID usageID db m = ?inc"
    unfolding SecretsRepository_CreateSecretMetadata_def Let_def ins using org by simp
  show ?thesis unfolding unfold using inc by (auto split: if_splits)
qed

lemma next_stmt_tables [simp]:
  "users (next_stmt db) = users db"
  "organizations (next_stmt db) = organizations db"
  "projects (next_stmt db) = projects db"
  "secret_metadata (next_stmt db) = secret_metadata db"
  "subscriptions (next_stmt db) = subscriptions db"
  "usage_statistics (next_stmt db) = usage_statistics db"
  by (simp_all add: next_stmt_def)

lemma next_stmt_update [simp]:
  "next_stmt (db\<lparr>secret_metadata := ms\<rparr>) = (next_stmt db)\<lparr>secret_metadata := ms\<rparr>"
  "next_stmt (db\<lparr>usage_statistics := us\<rparr>) = (next_stmt db)\<lparr>usage_statistics := us\<rparr>"
  "stmt_fails (db\<lparr>secret_metadata := ms\<rparr>) = stmt_fails db"
  "stmt_fails (db\<lparr>usage_statistics := us\<rparr>) = stmt_fails db"
  by (simp_all add: next_stmt_def stmt_fails_def)

lemma GetSecretsCount_reads:
  "fst (SecretsRepository_GetSecretsCount d orgID) =
     (if stmt_fails d then Inl ErrDriver else Inr (count_in (usage_statistics d) orgID))"
  by (simp add: SecretsRepository_GetSecretsCount_def QueryRow_def count_in_def
      split: list.splits)

lemma GetSecretMetadataByPath_snd:
  "snd (SecretsRepository_GetSecretMetadataByPath db orgID p e n) = next_stmt db"
  by (simp add: SecretsRepository_GetSecretMetadataByPath_def QueryRow_def split: list.splits)

lemma DeleteSecretMetadata_outcomes:
  "(if stmt_fails d
    then SecretsRepository_DeleteSecretMetadata now d rowID orgID = (Some ErrDriver, next_stmt d)
    else secret_metadata (snd (SecretsRepository_DeleteSecretMetadata now d rowID orgID)) =
           filter (\<lambda>r. m_ID r \<noteq> rowID) (secret_metadata d) \<and>
         (if stmt_fails (next_stmt d)
          then fst (SecretsRepository_DeleteSecretMetadata now d rowID orgID) = Some ErrDriver \<and>
               usage_statistics (snd (SecretsRepository_DeleteSecretMetadata now d rowID orgID)) =
                 usage_statistics d
          else fst (SecretsRepository_DeleteSecretMetadata now d rowID orgID) = None \<and>
               count_in (usage_statistics
                   (snd (SecretsRepository_DeleteSecretMetadata now d rowID orgID))) orgID =
                 max 0 (count_in (usage_statistics d) orgID - 1)))"
  by (simp add: SecretsRepository_DeleteSecretMetadata_def delete_metadata_def
      SecretsRepository_decrementSecretsCount_def update_count_decr_def count_in_decr)

lemma DeleteByPath_lookup:
  "SecretsRepository_DeleteSecretMetadataByPath now db orgID p e n =
     (case fst (SecretsRepository_GetSecretMetadataByPath db orgID p e n) of
        Inl err \<Rightarrow> (Some err, next_stmt db)
      | Inr None \<Rightarrow> (None, next_stmt db)
      | Inr (Some metadata) \<Rightarrow>
          SecretsRepository_DeleteSecretMetadata now (next_stmt db) (m_ID metadata) orgID)"
proof -
  obtain r d where g: "SecretsRepository_GetSecretMetadataByPath db orgID p e n = (r, d)"
    by force
  then have d: "d = next_stmt db"
    using GetSecretMetadataByPath_snd[of db orgID p e n] by simp
  show ?thesis
    using g d
    by (simp add: SecretsRepository_DeleteSecretMetadataByPath_def
        split: sum.splits option.splits)
qed

subsection \<open>The value store behind the service and the handler\<close>

lemma StoreSecret_healthy:
  assumes "vfaults v = []"
  shows "vault_Service_StoreSecret now v s =
     (None, v\<lparr>kv := (kv v)
        (buildSecretPath (s_OrganizationID s) (s_ProjectID s) (s_Environment s) (s_Name s) \<mapsto>
          [''value'' \<mapsto> JStr (s_Value s), ''created_at'' \<mapsto> JNum now,
           ''created_by'' \<mapsto> JStr (s_CreatedBy s),
           ''description'' \<mapsto> JStr (s_Description s)])\<rparr>)"
  using assms by (simp add: vault_Service_StoreSecret_def vault_prims Let_def)

lemma CreateSecret_handler_healthy:
  assumes "vfaults (w_vault w) = []"
  shows "SecretsHandler_CreateSecret now w \<lparr>body = Some s, ctx_userID = Some u\<rparr> =
     (HttpStatus 201,
      w\<lparr>w_vault := (w_vault w)\<lparr>kv := (kv (w_vault w))
        (buildSecretPath (s_OrganizationID s) (s_ProjectID s) (s_Environment s) (s_Name s) \<mapsto>
          [''value'' \<mapsto> JStr (s_Value s), ''created_at'' \<mapsto> JNum now,
           ''created_by'' \<mapsto> JStr u, ''description'' \<mapsto> JStr (s_Description s)])\<rparr>\<rparr>)"
  using assms by (simp add: SecretsHandler_CreateSecret_def StoreSecret_healthy)

lemma DeleteSecret_handler_general:
  "SecretsHandler_DeleteSecret w orgID p e n =
     (if request_fails (w_vault w)
      then (HttpError 500, w\<lparr>w_vault := next_request (w_vault w)\<rparr>)
      else (HttpStatus 204,
            w\<lparr>w_vault := next_request
                 ((w_vault w)\<lparr>kv := (kv (w_vault w))(buildSecretPath orgID p e n := None)\<rparr>)\<rparr>))"
  by (simp add: SecretsHandler_DeleteSecret_def vault_Service_DeleteSecret_def
      Client_DeleteSecret_def KVv2_Delete_def)

lemma GetSecret_general:
  "vault_Service_GetSecret v orgID p e n =
     (if request_fails v then (Inl ErrVaultGet, next_request v)
      else case kv v (buildSecretPath orgID p e n) of
             None \<Rightarrow> (Inl (ErrVaultSecretNotFound (buildSecretPath orgID p e n)), next_request v)
           | Some data \<Rightarrow> (Inr (secret_of_data orgID p e n data), next_request v))"
  by (simp add: vault_Service_GetSecret_def Client_GetSecret_def KVv2_Get_def Let_def
      secret_of_data_def split: option.splits)

section \<open>Creating a secret\<close>

text \<open>
  C1, as stated: a creation is refused with QuotaExceeded when the count has reached the
  limit, and writes neither value nor metadata. The creation the program has,
  \<open>SecretsHandler.CreateSecret\<close> over \<open>vault.Service.StoreSecret\<close>, never asks for
  the quota: for an organization whose counter reads five under the limit five
  (\<open>CanCreateSecret\<close> answers false) it stores the value and answers 201 Created.
\<close>

theorem create_at_quota_counterexample:
  "fst (CanCreateSecret (w_db at_quota) ''org-1'') = Inr False \<and>
   fst (SecretsHandler_CreateSecret 1000 at_quota
          \<lparr>body = Some api_key, ctx_userID = Some ''alice''\<rparr>) = HttpStatus 201 \<and>
   kv (w_vault (snd (SecretsHandler_CreateSecret 1000 at_quota
        \<lparr>body = Some api_key, ctx_userID = Some ''alice''\<rparr>))) ''org-1/billing/prod/api-key''
     = Some [''value'' \<mapsto> JStr ''hunter2'', ''created_at'' \<mapsto> JNum 1000,
             ''created_by'' \<mapsto> JStr ''alice'', ''description'' \<mapsto> JStr ''billing key'']"
  by (simp add: fixtures db_eval vault_eval)

text \<open>
  C1, amended: on working stores the handler's creation writes the value under the
  derived path and answers 201 for every organization, whatever its count and limit,
  and leaves the database as it was (no metadata row, no counter). The quota check
  exists apart from it: \<open>CanCreateSecret\<close> answers whether the count lies below the
  limit. The metadata insert exists apart from it too:
  \<open>SecretsRepository.CreateSecretMetadata\<close>, run with no other statement between its
  own, given a row the schema accepts (every string within the width of its column,
  the version within the range of \<open>INT\<close>, an identifier not yet in the table, and an
  organization, a project and a creator that exist), a counter below the top of the
  range of its column and, for the usage row it may have to create, an identifier that
  fits and is not yet in the table, appends the row and raises the count the
  organization reads by exactly one, so that the Nth secret leaves it at N.
\<close>

theorem create_not_gated_by_quota:
  assumes "vfaults (w_vault w) = []"
    and "faults db = []"
    and "secret_metadata_violation db
           (m\<lparr>m_ID := (if m_ID m = [] then metaID else m_ID m)\<rparr>) = None"
    and "\<not> list_ex (\<lambda>r. us_organization_id r = m_OrganizationID m \<and> INT_MAX \<le> us_secret_count r)
             (usage_statistics db)"
    and "\<not> list_ex (\<lambda>r. us_id r = usageID) (usage_statistics db)"
    and "fits 36 usageID"
  shows "SecretsHandler_CreateSecret now w \<lparr>body = Some s, ctx_userID = Some u\<rparr> =
           (HttpStatus 201,
            w\<lparr>w_vault := (w_vault w)\<lparr>kv := (kv (w_vault w))
               (buildSecretPath (s_OrganizationID s) (s_ProjectID s) (s_Environment s) (s_Name s) \<mapsto>
                  [''value'' \<mapsto> JStr (s_Value s), ''created_at'' \<mapsto> JNum now,
                   ''created_by'' \<mapsto> JStr u, ''description'' \<mapsto> JStr (s_Description s)])\<rparr>\<rparr>) \<and>
         (\<exists>c l. fst (SecretCountRepository_GetSecretsCount db orgID) = Inr c \<and>
                 fst (SecretCountRepository_GetSecretsLimit db orgID) = Inr l \<and>
                 fst (CanCreateSecret db orgID) = Inr (c < l)) \<and>
         (\<exists>c. fst (SecretsRepository_GetSecretsCount db (m_OrganizationID m)) = Inr c \<and>
              fst (SecretsRepository_CreateSecretMetadata now metaID usageID db m) = None \<and>
              secret_metadata (snd (SecretsRepository_CreateSecretMetadata now metaID usageID db m)) =
                secret_metadata db @
                  [m\<lparr>m_ID := (if m_ID m = [] then metaID else m_ID m),
                     m_CreatedAt := now, m_UpdatedAt := now\<rparr>] \<and>
              fst (SecretsRepository_GetSecretsCount
                     (snd (SecretsRepository_CreateSecretMetadata now metaID usageID db m))
                     (m_OrganizationID m)) = Inr (c + 1))"
proof (intro conjI)
  show "SecretsHandler_CreateSecret now w \<lparr>body = Some s, ctx_userID = Some u\<rparr> =
           (HttpStatus 201,
            w\<lparr>w_vault := (w_vault w)\<lparr>kv := (kv (w_vault w))
               (buildSecretPath (s_OrganizationID s) (s_ProjectID s) (s_Environment s) (s_Name s) \<mapsto>
                  [''value'' \<mapsto> JStr (s_Value s), ''created_at'' \<mapsto> JNum now,
                   ''created_by'' \<mapsto> JStr u, ''description'' \<mapsto> JStr (s_Description s)])\<rparr>\<rparr>)"
    by (rule CreateSecret_handler_healthy[OF assms(1)])
  show "\<exists>c l. fst (SecretCountRepository_GetSecretsCount db orgID) = Inr c \<and>
                 fst (SecretCountRepository_GetSecretsLimit db orgID) = Inr l \<and>
                 fst (CanCreateSecret db orgID) = Inr (c < l)"
    using CanCreateSecret_healthy[OF assms(2), of orgID] by auto
  let ?db' = "snd (SecretsRepository_CreateSecretMetadata now metaID usageID db m)"
  have c: "fst (SecretsRepository_CreateSecretMetadata now metaID usageID db m) = None \<and>
     secret_metadata ?db' = secret_metadata db @
         [m\<lparr>m_ID := (if m_ID m = [] then metaID else m_ID m),
            m_CreatedAt := now, m_UpdatedAt := now\<rparr>] \<and>
     count_in (usage_statistics ?db') (m_OrganizationID m) =
       count_in (usage_statistics db) (m_OrganizationID m) + 1 \<and>
     faults ?db' = []"
    by (rule CreateSecretMetadata_healthy[OF assms(2-6)])
  then have "faults ?db' = []" by simp
  from SecretsRepository_GetSecretsCount_healthy[OF this]
    SecretsRepository_GetSecretsCount_healthy[OF assms(2)] c
  show "\<exists>c. fst (SecretsRepository_GetSecretsCount db (m_OrganizationID m)) = Inr c \<and>
              fst (SecretsRepository_CreateSecretMetadata now metaID usageID db m) = None \<and>
              secret_metadata ?db' =
                secret_metadata db @
                  [m\<lparr>m_ID := (if m_ID m = [] then metaID else m_ID m),
                     m_CreatedAt := now, m_UpdatedAt := now\<rparr>] \<and>
              fst (SecretsRepository_GetSecretsCount ?db' (m_OrganizationID m)) = Inr (c + 1)"
    by simp
qed

theorem create_not_gated_by_quota_witness:
  "vfaults (w_vault at_quota) = [] \<and> faults (w_db at_quota) = [] \<and>
   secret_metadata_violation (w_db at_quota)
     (api_key_metadata\<lparr>m_ID := (if m_ID api_key_metadata = [] then ''m-9''
                                  else m_ID api_key_metadata)\<rparr>) = None \<and>
   \<not> list_ex (\<lambda>r. us_organization_id r = m_OrganizationID api_key_metadata \<and>
                 INT_MAX \<le> us_secret_count r) (usage_statistics (w_db at_quota)) \<and>
   \<not> list_ex (\<lambda>r. us_id r = ''us-9'') (usage_statistics (w_db at_quota)) \<and>
   fits 36 ''us-9'' \<and>
   secret_metadata_violation ((w_db at_quota)\<lparr>users := []\<rparr>) api_key_metadata =
     Some ErrForeignKey \<and>
   fst (SecretsRepository_CreateSecretMetadata 1000 ''m-9'' ''us-9''
          ((w_db at_quota)\<lparr>users := []\<rparr>) api_key_metadata) = Some ErrForeignKey \<and>
   fst (CanCreateSecret (w_db at_quota) ''org-1'') = Inr False \<and>
   fst (SecretsHandler_CreateSecret 1000 at_quota
          \<lparr>body = Some api_key, ctx_userID = Some ''alice''\<rparr>) = HttpStatus 201 \<and>
   w_db (snd (SecretsHandler_CreateSecret 1000 at_quota
                \<lparr>body = Some api_key, ctx_userID = Some ''alice''\<rparr>)) = w_db at_quota \<and>
   fst (SecretsRepository_GetSecretsCount
          (snd (SecretsRepository_CreateSecretMetadata 1000 ''m-9'' ''us-9'' (w_db at_quota)
                  api_key_metadata)) ''org-1'') = Inr 6"
  using create_not_gated_by_quota [where w = at_quota and db = "w_db at_quota"
      and m = api_key_metadata and metaID = "''m-9''" and usageID = "''us-9''" and now = 1000
      and s = api_key and u = "''alice''" and orgID = "''org-1''"]
  by (simp add: fixtures db_eval)

section \<open>Reading a secret\<close>

text \<open>
  C2, as stated: a read fetches the metadata row first, answers SecretNotFound without
  touching the value store when there is none, and answers InconsistentState when the
  row exists and the value is absent. The read the program has never looks at the
  metadata: with the value stored and no metadata row it returns the secret, and with
  the metadata row present and the value absent it gives the same error and the same
  404 as when neither exists.
\<close>

theorem read_ignores_metadata_counterexample:
  "fst (SecretsRepository_GetSecretMetadataByPath (w_db value_without_metadata)
          ''org-1'' ''billing'' ''prod'' ''api-key'') = Inr None \<and>
   fst (SecretsHandler_GetSecret value_without_metadata ''org-1'' ''billing'' ''prod'' ''api-key'') =
     HttpJSON (api_key\<lparr>s_CreatedBy := ''alice'', s_Version := 0\<rparr>) \<and>
   fst (SecretsRepository_GetSecretMetadataByPath (w_db metadata_without_value)
          ''org-1'' ''billing'' ''prod'' ''api-key'') = Inr (Some api_key_metadata) \<and>
   fst (vault_Service_GetSecret (w_vault metadata_without_value)
          ''org-1'' ''billing'' ''prod'' ''api-key'') =
     Inl (ErrVaultSecretNotFound ''org-1/billing/prod/api-key'') \<and>
   fst (vault_Service_GetSecret (w_vault nothing_stored)
          ''org-1'' ''billing'' ''prod'' ''api-key'') =
     Inl (ErrVaultSecretNotFound ''org-1/billing/prod/api-key'') \<and>
   fst (SecretsHandler_GetSecret metadata_without_value ''org-1'' ''billing'' ''prod'' ''api-key'') =
     HttpError 404 \<and>
   fst (SecretsHandler_GetSecret nothing_stored ''org-1'' ''billing'' ''prod'' ''api-key'') =
     HttpError 404"
  by (simp add: fixtures db_eval vault_eval)

text \<open>
  C2, amended: a read asks the value store alone, under the path derived from
  organization, project, environment and name. When the request fails or the store
  reports absence, \<open>vault.Service.GetSecret\<close> returns that error and the handler answers
  404 Not Found; when the value is there it returns the secret built from the stored
  fields. The metadata table is neither read nor written: the answer is the same for
  every state of the database.
\<close>

theorem read_from_value_store_only:
  "vault_Service_GetSecret (w_vault w) orgID projectID env name =
     (if request_fails (w_vault w) then (Inl ErrVaultGet, next_request (w_vault w))
      else case kv (w_vault w) (buildSecretPath orgID projectID env name) of
             None \<Rightarrow> (Inl (ErrVaultSecretNotFound (buildSecretPath orgID projectID env name)),
                      next_request (w_vault w))
           | Some data \<Rightarrow> (Inr (secret_of_data orgID projectID env name data),
                           next_request (w_vault w))) \<and>
   fst (SecretsHandler_GetSecret w orgID projectID env name) =
     (case fst (vault_Service_GetSecret (w_vault w) orgID projectID env name) of
        Inl err \<Rightarrow> HttpError 404
      | Inr secret \<Rightarrow> HttpJSON secret) \<and>
   fst (SecretsHandler_GetSecret (w\<lparr>w_db := db'\<rparr>) orgID projectID env name) =
     fst (SecretsHandler_GetSecret w orgID projectID env name) \<and>
   w_db (snd (SecretsHandler_GetSecret w orgID projectID env name)) = w_db w"
  by (simp add: GetSecret_general SecretsHandler_GetSecret_def split: option.splits)

section \<open>Deleting a secret\<close>

text \<open>
  C7, as stated: deleting an existing secret removes the value, then the metadata row,
  then lowers the counter by one. The deletion the program has,
  \<open>SecretsHandler.DeleteSecret\<close> over \<open>vault.Service.DeleteSecret\<close>, removes the value
  and nothing else: the metadata row is still there and the counter still reads one.
\<close>

theorem delete_handler_counterexample:
  "fst (SecretsHandler_DeleteSecret stored_world ''org-1'' ''billing'' ''prod'' ''api-key'') =
     HttpStatus 204 \<and>
   kv (w_vault (snd (SecretsHandler_DeleteSecret stored_world
         ''org-1'' ''billing'' ''prod'' ''api-key''))) ''org-1/billing/prod/api-key'' = None \<and>
   secret_metadata (w_db (snd (SecretsHandler_DeleteSecret stored_world
     ''org-1'' ''billing'' ''prod'' ''api-key''))) = [api_key_metadata] \<and>
   fst (SecretsRepository_GetSecretsCount (w_db stored_world) ''org-1'') = Inr 1 \<and>
   fst (SecretsRepository_GetSecretsCount (w_db (snd (SecretsHandler_DeleteSecret stored_world
     ''org-1'' ''billing'' ''prod'' ''api-key''))) ''org-1'') = Inr 1"
  by (simp add: fixtures db_eval vault_eval)

text \<open>
  C7, amended: value and metadata are deleted by two operations that do not call each
  other. \<open>SecretsRepository.DeleteSecretMetadataByPath\<close>: when the lookup fails it
  returns that error and changes no table; when the path has no metadata row it returns
  success and changes no table; when it has one, it deletes the rows with that
  identifier and then lowers the count the organization reads by one, never below 0,
  and returns success. When the \<open>DELETE\<close> fails it returns the error and no table has
  changed; when the \<open>UPDATE\<close> of the counter fails it returns the error, the row is
  deleted and the counter is as it was. The count an organization reads is what
  \<open>GetSecretsCount\<close> returns whenever its statement does not fail.
  \<open>SecretsHandler.DeleteSecret\<close> removes the value under the derived path and answers
  204, or answers 500 with the value store as it was when the request to it fails; it
  leaves the database as it was.
\<close>

theorem delete_value_and_metadata_apart:
  "fst (SecretsRepository_GetSecretsCount d orgID) =
     (if stmt_fails d then Inl ErrDriver else Inr (count_in (usage_statistics d) orgID)) \<and>
   (case fst (SecretsRepository_GetSecretMetadataByPath db orgID projectID env name) of
      Inl err \<Rightarrow>
        SecretsRepository_DeleteSecretMetadataByPath now db orgID projectID env name =
          (Some err, next_stmt db)
    | Inr None \<Rightarrow>
        SecretsRepository_DeleteSecretMetadataByPath now db orgID projectID env name =
          (None, next_stmt db)
    | Inr (Some metadata) \<Rightarrow>
        (if stmt_fails (next_stmt db)
         then SecretsRepository_DeleteSecretMetadataByPath now db orgID projectID env name =
                (Some ErrDriver, next_stmt (next_stmt db))
         else secret_metadata
                  (snd (SecretsRepository_DeleteSecretMetadataByPath now db orgID projectID env name)) =
                filter (\<lambda>r. m_ID r \<noteq> m_ID metadata) (secret_metadata db) \<and>
              (if stmt_fails (next_stmt (next_stmt db))
               then fst (SecretsRepository_DeleteSecretMetadataByPath now db
                           orgID projectID env name) = Some ErrDriver \<and>
                    usage_statistics
                        (snd (SecretsRepository_DeleteSecretMetadataByPath now db
                                orgID projectID env name)) = usage_statistics db
               else fst (SecretsRepository_DeleteSecretMetadataByPath now db
                           orgID projectID env name) = None \<and>
                    count_in (usage_statistics
                        (snd (SecretsRepository_DeleteSecretMetadataByPath now db
                                orgID projectID env name))) orgID =
                      max 0 (count_in (usage_statistics db) orgID - 1)))) \<and>
   secret_metadata (next_stmt db) = secret_metadata db \<and>
   usage_statistics (next_stmt db) = usage_statistics db \<and>
   SecretsHandler_DeleteSecret w orgID projectID env name =
     (if request_fails (w_vault w)
      then (HttpError 500, w\<lparr>w_vault := next_request (w_vault w)\<rparr>)
      else (HttpStatus 204,
            w\<lparr>w_vault := next_request
                 ((w_vault w)\<lparr>kv := (kv (w_vault w))
                    (buildSecretPath orgID projectID env name := None)\<rparr>)\<rparr>)) \<and>
   kv (next_request (w_vault w)) = kv (w_vault w)"
proof (intro conjI)
  show "fst (SecretsRepository_GetSecretsCount d orgID) =
     (if stmt_fails d then Inl ErrDriver else Inr (count_in (usage_statistics d) orgID))"
    by (rule GetSecretsCount_reads)
  show "SecretsHandler_DeleteSecret w orgID projectID env name =
     (if request_fails (w_vault w)
      then (HttpError 500, w\<lparr>w_vault := next_request (w_vault w)\<rparr>)
      else (HttpStatus 204,
            w\<lparr>w_vault := next_request
                 ((w_vault w)\<lparr>kv := (kv (w_vault w))
                    (buildSecretPath orgID projectID env name := None)\<rparr>)\<rparr>))"
    by (rule DeleteSecret_handler_general)
  show "secret_metadata (next_stmt db) = secret_metadata db" by simp
  show "usage_statistics (next_stmt db) = usage_statistics db" by simp
  show "kv (next_request (w_vault w)) = kv (w_vault w)" by (simp add: next_request_def)
  let ?del = "SecretsRepository_DeleteSecretMetadataByPath now db orgID projectID env name"
  show "case fst (SecretsRepository_GetSecretMetadataByPath db orgID projectID env name) of
      Inl err \<Rightarrow> ?del = (Some err, next_stmt db)
    | Inr None \<Rightarrow> ?del = (None, next_stmt db)
    | Inr (Some metadata) \<Rightarrow>
        (if stmt_fails (next_stmt db)
         then ?del = (Some ErrDriver, next_stmt (next_stmt db))
         else secret_metadata (snd ?del) =
                filter (\<lambda>r. m_ID r \<noteq> m_ID metadata) (secret_metadata db) \<and>
              (if stmt_fails (next_stmt (next_stmt db))
               then fst ?del = Some ErrDriver \<and>
                    usage_statistics (snd ?del) = usage_statistics db
               else fst ?del = None \<and>
                    count_in (usage_statistics (snd ?del)) orgID =
                      max 0 (count_in (usage_statistics db) orgID - 1)))"
  proof (cases "fst (SecretsRepository_GetSecretMetadataByPath db orgID projectID env name)")
    case (Inl err)
    then show ?thesis by (simp add: DeleteByPath_lookup)
  next
    case (Inr found)
    show ?thesis
    proof (cases found)
      case None
      then show ?thesis using Inr by (simp add: DeleteByPath_lookup)
    next
      case (Some metadata)
      have "?del = SecretsRepository_DeleteSecretMetadata now (next_stmt db) (m_ID metadata) orgID"
        using Inr Some by (simp add: DeleteByPath_lookup)
      then show ?thesis
        using Inr Some
          DeleteSecretMetadata_outcomes[of "next_stmt db" now "m_ID metadata" orgID]
        by (simp split: if_splits)
    qed
  qed
qed

text \<open>The operation on the stored secret: on a working connection, when the lookup
  fails, and when the update of the counter fails.\<close>

theorem delete_value_and_metadata_apart_witness:
  "fst (SecretsRepository_GetSecretMetadataByPath (w_db stored_world)
          ''org-1'' ''billing'' ''prod'' ''api-key'') = Inr (Some api_key_metadata) \<and>
   fst (SecretsRepository_GetSecretsCount (w_db stored_world) ''org-1'') = Inr 1 \<and>
   fst (SecretsRepository_DeleteSecretMetadataByPath 1000 (w_db stored_world)
          ''org-1'' ''billing'' ''prod'' ''api-key'') = None \<and>
   secret_metadata (snd (SecretsRepository_DeleteSecretMetadataByPath 1000 (w_db stored_world)
          ''org-1'' ''billing'' ''prod'' ''api-key'')) = [] \<and>
   fst (SecretsRepository_GetSecretsCount
          (snd (SecretsRepository_DeleteSecretMetadataByPath 1000 (w_db stored_world)
             ''org-1'' ''billing'' ''prod'' ''api-key'')) ''org-1'') = Inr 0 \<and>
   SecretsRepository_DeleteSecretMetadataByPath 1000 (w_db stored_world)
          ''org-1'' ''billing'' ''prod'' ''no-such-secret'' = (None, w_db stored_world) \<and>
   SecretsRepository_DeleteSecretMetadataByPath 1000 ((w_db stored_world)\<lparr>faults := [True]\<rparr>)
          ''org-1'' ''billing'' ''prod'' ''api-key'' = (Some ErrDriver, w_db stored_world) \<and>
   fst (SecretsRepository_DeleteSecretMetadataByPath 1000
          ((w_db stored_world)\<lparr>faults := [False, False, True]\<rparr>)
          ''org-1'' ''billing'' ''prod'' ''api-key'') = Some ErrDriver \<and>
   secret_metadata (snd (SecretsRepository_DeleteSecretMetadataByPath 1000
          ((w_db stored_world)\<lparr>faults := [False, False, True]\<rparr>)
          ''org-1'' ''billing'' ''prod'' ''api-key'')) = [] \<and>
   fst (SecretsRepository_GetSecretsCount
          (snd (SecretsRepository_DeleteSecretMetadataByPath 1000
             ((w_db stored_world)\<lparr>faults := [False, False, True]\<rparr>)
             ''org-1'' ''billing'' ''prod'' ''api-key'')) ''org-1'') = Inr 1 \<and>
   fst (SecretsHandler_DeleteSecret stored_world ''org-1'' ''billing'' ''prod'' ''api-key'') =
     HttpStatus 204 \<and>
   SecretsHandler_DeleteSecret (stored_world\<lparr>w_vault := (w_vault stored_world)\<lparr>vfaults := [True]\<rparr>\<rparr>)
       ''org-1'' ''billing'' ''prod'' ''api-key'' = (HttpError 500, stored_world)"
  using delete_value_and_metadata_apart [where db = "w_db stored_world" and w = stored_world
      and orgID = "''org-1''" and projectID = "''billing''" and env = "''prod''"
      and name = "''api-key''" and now = 1000 and d = "w_db stored_world"]
  by (simp add: fixtures db_eval vault_eval)

section \<open>Create, then read\<close>

text \<open>
  C8, as stated: the secret read back has version 1. \<open>vault.Service.GetSecret\<close> never
  sets the version, so the secret read back carries the zero value 0, also when the
  secret created carried version 1.
\<close>

theorem round_trip_version_counterexample:
  "s_Version api_key = 1 \<and>
   fst (vault_Service_StoreSecret 1000 healthy_vault api_key) = None \<and>
   fst (vault_Service_GetSecret (snd (vault_Service_StoreSecret 1000 healthy_vault api_key))
          ''org-1'' ''billing'' ''prod'' ''api-key'') = Inr (api_key\<lparr>s_Version := 0\<rparr>) \<and>
   fst (SecretsHandler_GetSecret
          (snd (SecretsHandler_CreateSecret 1000 nothing_stored
                  \<lparr>body = Some api_key, ctx_userID = Some ''alice''\<rparr>))
          ''org-1'' ''billing'' ''prod'' ''api-key'') =
     HttpJSON (api_key\<lparr>s_CreatedBy := ''alice'', s_Version := 0\<rparr>)"
  by (simp add: fixtures vault_eval)

text \<open>
  C8, amended: on a working value store, creating a secret and then reading the same
  path returns a secret with the same value, the same description and the same
  creator (through the handlers: the user of the request), under the same
  organization, project, environment and name; its identifier is empty, its
  timestamps are the zero time and its version is 0.
\<close>

theorem round_trip_value_and_description:
  assumes "vfaults v = []" and "vfaults (w_vault w) = []"
  shows "fst (vault_Service_StoreSecret now v s) = None \<and>
         fst (vault_Service_GetSecret (snd (vault_Service_StoreSecret now v s))
                (s_OrganizationID s) (s_ProjectID s) (s_Environment s) (s_Name s)) =
           Inr \<lparr>s_ID = [], s_Name = s_Name s, s_Value = s_Value s,
                s_Description = s_Description s, s_OrganizationID = s_OrganizationID s,
                s_ProjectID = s_ProjectID s, s_Environment = s_Environment s,
                s_CreatedBy = s_CreatedBy s, s_CreatedAt = zero_time,
                s_UpdatedAt = zero_time, s_Version = 0\<rparr> \<and>
         fst (SecretsHandler_CreateSecret now w \<lparr>body = Some s, ctx_userID = Some u\<rparr>) =
           HttpStatus 201 \<and>
         fst (SecretsHandler_GetSecret
                (snd (SecretsHandler_CreateSecret now w \<lparr>body = Some s, ctx_userID = Some u\<rparr>))
                (s_OrganizationID s) (s_ProjectID s) (s_Environment s) (s_Name s)) =
           HttpJSON \<lparr>s_ID = [], s_Name = s_Name s, s_Value = s_Value s,
                s_Description = s_Description s, s_OrganizationID = s_OrganizationID s,
                s_ProjectID = s_ProjectID s, s_Environment = s_Environment s,
                s_CreatedBy = u, s_CreatedAt = zero_time,
                s_UpdatedAt = zero_time, s_Version = 0\<rparr>"
  using assms
  by (simp add: StoreSecret_healthy CreateSecret_handler_healthy GetSecret_general
      SecretsHandler_GetSecret_def secret_of_data_def)

theorem round_trip_value_and_description_witness:
  "vfaults healthy_vault = [] \<and> vfaults (w_vault nothing_stored) = [] \<and>
   fst (vault_Service_GetSecret (snd (vault_Service_StoreSecret 1000 healthy_vault api_key))
          ''org-1'' ''billing'' ''prod'' ''api-key'') = Inr (api_key\<lparr>s_Version := 0\<rparr>)"
  using round_trip_value_and_description [where v = healthy_vault and w = nothing_stored
      and now = 1000 and s = api_key and u = "''alice''"]
  by (simp add: fixtures)

section \<open>Subscriptions\<close>

subsection \<open>Active subscriptions under the statements\<close>





lemma active_next_stmt [simp]:
  "active_subscriptions t orgID (next_stmt db) = active_subscriptions t orgID db"
  by (simp add: active_subscriptions_def next_stmt_def)

lemma is_active_with_id [simp]:
  "is_active t (if sub_ID s = [] then s\<lparr>sub_ID := uuid\<rparr> else s) = is_active t s"
  by (simp add: is_active_def)








subsection \<open>\<open>CreateSubscription\<close> step by step\<close>










subsection \<open>One call in flight\<close>

















section \<open>The secrets limit\<close>

lemma limit_rows_filter:
  assumes "\<forall>s \<in> set (subscriptions db).
             sub_OrganizationID s = orgID \<and> sub_Status s = ''active'' \<longrightarrow> now \<le> sub_EndDate s"
  shows "filter (\<lambda>s. sub_OrganizationID s = orgID \<and> sub_Status s = ''active'') (subscriptions db) =
         filter (spec_active now orgID) (subscriptions db)"
  using assms by (intro filter_cong) (auto simp: spec_active_def)

text \<open>
  When no subscription of the organization has status \<open>active\<close> with an end date
  already past, \<open>SecretCountRepository.GetSecretsLimit\<close> on a working connection
  returns the limit the specification words: that of the active subscription ending
  last, 5 when there is none.
\<close>

theorem GetSecretsLimit_without_expired_rows:
  assumes "faults db = []"
    and "\<forall>s \<in> set (subscriptions db).
           sub_OrganizationID s = orgID \<and> sub_Status s = ''active'' \<longrightarrow> now \<le> sub_EndDate s"
  shows "SecretCountRepository_GetSecretsLimit db orgID = (Inr (spec_GetLimit now db orgID), db)"
  using assms(1)
  by (simp add: SecretCountRepository_GetSecretsLimit_def select_limit_rows_def QueryRow_def
      spec_GetLimit_def limit_rows_filter[OF assms(2)] take_map split: list.splits)

theorem GetSecretsLimit_without_expired_rows_witness:
  "faults two_subscriptions = [] \<and>
   list_all (\<lambda>s. \<not> (sub_OrganizationID s = ''org-1'' \<and> sub_Status s = ''active'') \<or>
                 150 \<le> sub_EndDate s) (subscriptions two_subscriptions) \<and>
   SecretCountRepository_GetSecretsLimit two_subscriptions ''org-1'' = (Inr 500, two_subscriptions) \<and>
   spec_GetLimit 150 two_subscriptions ''org-1'' = 500"
  using GetSecretsLimit_without_expired_rows
    [where db = two_subscriptions and orgID = "''org-1''" and now = 150]
  by (simp add: two_subscriptions_def one_subscription_def fixtures schema
      stmt_fails_def next_stmt_def QueryRow_def GetActiveSubscription_def
      cancelSubscription_def insert_subscription_def CreateSubscription_def
      order_by_end_date_desc_def spec_GetLimit_def spec_active_def)

text \<open>
  C6: the lookup is to return the limit of the active subscription, active meaning
  status \<open>active\<close> and end date not yet past, and 5 when none is active.
  \<open>SecretCountRepository.GetSecretsLimit\<close> selects on the status alone: for an
  organization whose only subscription has status \<open>active\<close> and ended at 100, it
  returns that subscription's limit 50 at instant 200, where
  \<open>GetActiveSubscription\<close> of the same package finds no active subscription and the
  specification's limit is 5.
\<close>

theorem expired_subscription_still_grants_limit:
  "fst (SecretCountRepository_GetSecretsLimit expired_subscription ''org-1'') = Inr 50 \<and>
   fst (GetActiveSubscription 200 expired_subscription ''org-1'') = Inr None \<and>
   spec_GetLimit 200 expired_subscription ''org-1'' = 5"
  by (simp add: fixtures SecretCountRepository_GetSecretsLimit_def GetActiveSubscription_def
      select_limit_rows_def order_by_end_date_desc_def spec_GetLimit_def spec_active_def
      db_prims)

text \<open>
  The two lookups of the limit run the same query and differ in one place only:
  when the statement succeeds and yields no row, \<open>SecretsRepository.GetSecretsLimit\<close>
  returns 0 where \<open>SecretCountRepository.GetSecretsLimit\<close> returns 5.
\<close>

theorem GetSecretsLimit_differ_only_without_row:
  "SecretsRepository_GetSecretsLimit db orgID =
     (if \<not> stmt_fails db \<and> select_limit_rows db orgID = [] then (Inr 0, next_stmt db)
      else SecretCountRepository_GetSecretsLimit db orgID) \<and>
   SecretCountRepository_GetSecretsLimit db orgID =
     (if \<not> stmt_fails db \<and> select_limit_rows db orgID = [] then (Inr 5, next_stmt db)
      else SecretsRepository_GetSecretsLimit db orgID)"
  by (simp add: SecretsRepository_GetSecretsLimit_def SecretCountRepository_GetSecretsLimit_def
      QueryRow_def split: list.splits)

text \<open>
  C10: the two implementations of the limit lookup are to return the same limit and the
  same error in every state. For an organization without subscription, on a working
  connection, \<open>SecretCountRepository.GetSecretsLimit\<close> returns 5 and
  \<open>SecretsRepository.GetSecretsLimit\<close> returns 0.
\<close>

theorem GetSecretsLimit_implementations_differ:
  "SecretCountRepository_GetSecretsLimit empty_db ''org-1'' = (Inr 5, empty_db) \<and>
   SecretsRepository_GetSecretsLimit empty_db ''org-1'' = (Inr 0, empty_db)"
  by (simp add: fixtures SecretCountRepository_GetSecretsLimit_def
      SecretsRepository_GetSecretsLimit_def select_limit_rows_def order_by_end_date_desc_def
      db_prims)

section \<open>Token services\<close>

lemma parse_minted:
  "jwt_Parse (keyFunc (jwtSecret cfg)) now
     (Signed \<lparr>jwt_alg = SigningMethodHMAC,
              jwt_claims = [''sub'' \<mapsto> JStr userID, ''type'' \<mapsto> JStr ty,
                            ''exp'' \<mapsto> JNum x, ''iat'' \<mapsto> JNum issued],
              jwt_key = jwtSecret cfg\<rparr>) =
   (if (x = 0 \<or> now < x) \<and> (issued = 0 \<or> issued \<le> now)
    then Inr \<lparr>jwt_alg = SigningMethodHMAC,
              jwt_claims = [''sub'' \<mapsto> JStr userID, ''type'' \<mapsto> JStr ty,
                            ''exp'' \<mapsto> JNum x, ''iat'' \<mapsto> JNum issued],
              jwt_key = jwtSecret cfg\<rparr>
    else Inl ((if x = 0 \<or> now < x then [] else [FlagExpired]) @
              (if issued = 0 \<or> issued \<le> now then [] else [FlagIssuedAt])))"
  by (simp add: jwt_Parse_def keyFunc_def claims_flags_def Let_def)

lemma wrong_type_minted:
  "ServiceImproved_VerifyToken cfg t
     (Signed \<lparr>jwt_alg = SigningMethodHMAC,
              jwt_claims = [''sub'' \<mapsto> JStr userID, ''type'' \<mapsto> JStr ''refresh'',
                            ''exp'' \<mapsto> JNum x, ''iat'' \<mapsto> JNum issued],
              jwt_key = jwtSecret cfg\<rparr>) =
     Inl (if x \<noteq> 0 \<and> x \<le> t then ErrTokenExpired else ErrInvalidToken)"
  "ServiceImproved_RefreshToken cfg t db
     (Signed \<lparr>jwt_alg = SigningMethodHMAC,
              jwt_claims = [''sub'' \<mapsto> JStr userID, ''type'' \<mapsto> JStr ''access'',
                            ''exp'' \<mapsto> JNum x, ''iat'' \<mapsto> JNum issued],
              jwt_key = jwtSecret cfg\<rparr>) =
     (Inl (if x \<noteq> 0 \<and> x \<le> t then ErrTokenExpired else ErrInvalidToken), db)"
  "Service005_VerifyToken cfg t
     (Signed \<lparr>jwt_alg = SigningMethodHMAC,
              jwt_claims = [''sub'' \<mapsto> JStr userID, ''type'' \<mapsto> JStr ''refresh'',
                            ''exp'' \<mapsto> JNum x, ''iat'' \<mapsto> JNum issued],
              jwt_key = jwtSecret cfg\<rparr>) =
     Inl (if x \<noteq> 0 \<and> x \<le> t then ErrTokenExpired else ErrInvalidToken)"
  "Service005_RefreshToken cfg t db
     (Signed \<lparr>jwt_alg = SigningMethodHMAC,
              jwt_claims = [''sub'' \<mapsto> JStr userID, ''type'' \<mapsto> JStr ''access'',
                            ''exp'' \<mapsto> JNum x, ''iat'' \<mapsto> JNum issued],
              jwt_key = jwtSecret cfg\<rparr>) =
     (Inl (if x \<noteq> 0 \<and> x \<le> t then ErrTokenExpired else ErrInvalidToken), db)"
  by (auto simp: ServiceImproved_VerifyToken_def ServiceImproved_RefreshToken_def
      ServiceImproved_parseToken_def Service005_VerifyToken_def Service005_RefreshToken_def
      Service005_parseToken_def parse_minted)

text \<open>The service of auth/service.go signs tokens without a \<open>type\<close> claim, and has no
  refresh operation: none of its tokens is an access or a refresh token.\<close>

lemma Service_tokens_have_no_type:
  "Service_generateToken cfg now userID = Inr (Signed t, expiresAt) \<Longrightarrow>
   jwt_claims t ''type'' = None"
  by (auto simp: Service_generateToken_def Let_def)

text \<open>
  C3, as stated: every token of type \<open>refresh\<close> is rejected with InvalidToken by the
  verification of access tokens, and every token of type \<open>access\<close> with InvalidToken by
  the refresh operation. Of the pair \<open>ServiceImproved\<close> signs at instant 0 (lifetimes
  3600 and 604800 seconds), the refresh token presented to its \<open>VerifyToken\<close> at
  instant 700000 and the access token presented to its \<open>RefreshToken\<close> at instant 5000
  are rejected with \<open>ErrTokenExpired\<close>: \<open>parseToken\<close> checks the expiry before the type
  is read. And the \<open>VerifyToken\<close> of the \<open>Service\<close> of auth/service.go, which reads no
  type, accepts the refresh token at instant 100 and returns its user.
\<close>

theorem wrong_type_token_counterexample:
  "ServiceImproved_generateTokenPair demo_config 0 ''u-1'' =
     Inr (Signed (minted ''u-1'' ''access'' 0 3600),
          Signed (minted ''u-1'' ''refresh'' 0 604800), 3600) \<and>
   jwt_claims (minted ''u-1'' ''refresh'' 0 604800) ''type'' = Some (JStr ''refresh'') \<and>
   jwt_claims (minted ''u-1'' ''access'' 0 3600) ''type'' = Some (JStr ''access'') \<and>
   ServiceImproved_VerifyToken demo_config 700000 (Signed (minted ''u-1'' ''refresh'' 0 604800)) =
     Inl ErrTokenExpired \<and>
   ServiceImproved_RefreshToken demo_config 5000 account_db
       (Signed (minted ''u-1'' ''access'' 0 3600)) = (Inl ErrTokenExpired, account_db) \<and>
   Service_VerifyToken demo_config 100 (Signed (minted ''u-1'' ''refresh'' 0 604800)) =
     Inr ''u-1''"
  by (simp add: fixtures token_eval Let_def)

text \<open>
  C3, amended: of the pair of tokens \<open>ServiceImproved\<close> signs, and of the pair the
  \<open>Service\<close> of unnamed/part_005 signs, the refresh token is rejected by the
  \<open>VerifyToken\<close> of that service and the access token by its \<open>RefreshToken\<close> at every
  instant: with \<open>ErrTokenExpired\<close> when the token presented has expired (its \<open>exp\<close> is
  not 0 and is not later than the instant), and with \<open>ErrInvalidToken\<close> at every other
  instant, so throughout the lifetime of the token. The refresh operation leaves the
  database as it was.
\<close>

theorem wrong_type_token_rejected:
  assumes "ServiceImproved_generateTokenPair cfg issued userID = Inr (access, refresh, expiresAt)"
    and "Service005_generateTokenPair cfg issued userID = Inr (access', refresh', expiresAt')"
  shows "ServiceImproved_VerifyToken cfg t refresh =
           Inl (if issued + refreshTime cfg \<noteq> 0 \<and> issued + refreshTime cfg \<le> t
                then ErrTokenExpired else ErrInvalidToken) \<and>
         ServiceImproved_RefreshToken cfg t db access =
           (Inl (if issued + jwtExpiry cfg \<noteq> 0 \<and> issued + jwtExpiry cfg \<le> t
                 then ErrTokenExpired else ErrInvalidToken), db) \<and>
         Service005_VerifyToken cfg t refresh' =
           Inl (if issued + refreshTime cfg \<noteq> 0 \<and> issued + refreshTime cfg \<le> t
                then ErrTokenExpired else ErrInvalidToken) \<and>
         Service005_RefreshToken cfg t db access' =
           (Inl (if issued + jwtExpiry cfg \<noteq> 0 \<and> issued + jwtExpiry cfg \<le> t
                 then ErrTokenExpired else ErrInvalidToken), db)"
proof -
  have improved:
    "refresh = Signed \<lparr>jwt_alg = SigningMethodHMAC,
        jwt_claims = [''sub'' \<mapsto> JStr userID, ''type'' \<mapsto> JStr ''refresh'',
                      ''exp'' \<mapsto> JNum (issued + refreshTime cfg), ''iat'' \<mapsto> JNum issued],
        jwt_key = jwtSecret cfg\<rparr> \<and>
     access = Signed \<lparr>jwt_alg = SigningMethodHMAC,
        jwt_claims = [''sub'' \<mapsto> JStr userID, ''type'' \<mapsto> JStr ''access'',
                      ''exp'' \<mapsto> JNum (issued + jwtExpiry cfg), ''iat'' \<mapsto> JNum issued],
        jwt_key = jwtSecret cfg\<rparr>"
    using assms(1)
    by (auto simp: ServiceImproved_generateTokenPair_def ServiceImproved_generateToken_def Let_def)
  have part_005:
    "refresh' = Signed \<lparr>jwt_alg = SigningMethodHMAC,
        jwt_claims = [''sub'' \<mapsto> JStr userID, ''type'' \<mapsto> JStr ''refresh'',
                      ''exp'' \<mapsto> JNum (issued + refreshTime cfg), ''iat'' \<mapsto> JNum issued],
        jwt_key = jwtSecret cfg\<rparr> \<and>
     access' = Signed \<lparr>jwt_alg = SigningMethodHMAC,
        jwt_claims = [''sub'' \<mapsto> JStr userID, ''type'' \<mapsto> JStr ''access'',
                      ''exp'' \<mapsto> JNum (issued + jwtExpiry cfg), ''iat'' \<mapsto> JNum issued],
        jwt_key = jwtSecret cfg\<rparr>"
    using assms(2)
    by (auto simp: Service005_generateTokenPair_def Service005_generateToken_def Let_def)
  show ?thesis
    by (simp only: improved part_005 wrong_type_minted simp_thms)
qed

theorem wrong_type_token_rejected_witness:
  "ServiceImproved_generateTokenPair demo_config 0 ''u-1'' =
     Inr (Signed (minted ''u-1'' ''access'' 0 3600),
          Signed (minted ''u-1'' ''refresh'' 0 604800), 3600) \<and>
   Service005_generateTokenPair demo_config 0 ''u-1'' =
     Inr (Signed (minted ''u-1'' ''access'' 0 3600),
          Signed (minted ''u-1'' ''refresh'' 0 604800), 3600) \<and>
   ServiceImproved_VerifyToken demo_config 100 (Signed (minted ''u-1'' ''refresh'' 0 604800)) =
     Inl ErrInvalidToken \<and>
   ServiceImproved_RefreshToken demo_config 100 account_db
     (Signed (minted ''u-1'' ''access'' 0 3600)) = (Inl ErrInvalidToken, account_db) \<and>
   Service005_VerifyToken demo_config 100 (Signed (minted ''u-1'' ''refresh'' 0 604800)) =
     Inl ErrInvalidToken \<and>
   Service005_RefreshToken demo_config 100 account_db
     (Signed (minted ''u-1'' ''access'' 0 3600)) = (Inl ErrInvalidToken, account_db) \<and>
   ServiceImproved_VerifyToken demo_config 100 (Signed (minted ''u-1'' ''access'' 0 3600)) =
     Inr ''u-1''"
  using wrong_type_token_rejected [where cfg = demo_config and issued = 0 and userID = "''u-1''"
      and access = "Signed (minted ''u-1'' ''access'' 0 3600)"
      and refresh = "Signed (minted ''u-1'' ''refresh'' 0 604800)" and expiresAt = 3600
      and access' = "Signed (minted ''u-1'' ''access'' 0 3600)"
      and refresh' = "Signed (minted ''u-1'' ''refresh'' 0 604800)" and expiresAt' = 3600
      and db = account_db and t = 100]
  by (simp add: fixtures token_eval Let_def)

subsection \<open>Expiry\<close>

lemma expired_flags:
  assumes "jwt_claims t ''exp'' = Some (JNum e)" "e \<noteq> 0" "e < now"
  shows "FlagExpired \<in> set (claims_flags now (jwt_claims t))"
  using assms by (simp add: claims_flags_def)

lemma parse_expired:
  assumes "jwt_alg t = SigningMethodHMAC"
    and "jwt_claims t ''exp'' = Some (JNum e)" and "e \<noteq> 0" and "e < now"
  shows "\<exists>flags. jwt_Parse (keyFunc secret) now (Signed t) = Inl flags \<and> FlagExpired \<in> set flags"
proof -
  let ?flags = "claims_flags now (jwt_claims t) @
                  (if jwt_key t = secret then [] else [FlagSignatureInvalid])"
  have "FlagExpired \<in> set ?flags" using expired_flags[OF assms(2,3,4)] by simp
  moreover from this have "?flags \<noteq> []" by auto
  ultimately show ?thesis
    using assms(1) by (auto simp: jwt_Parse_def keyFunc_def Let_def)
qed

lemma parse_unexpired_bad_signature:
  assumes "jwt_claims t ''exp'' = Some (JNum e)" and "now < e" and "jwt_key t \<noteq> secret"
  shows "\<exists>flags. jwt_Parse (keyFunc secret) now (Signed t) = Inl flags \<and> FlagExpired \<notin> set flags"
  using assms
  by (auto simp: jwt_Parse_def keyFunc_def Let_def claims_flags_def
      split: option.splits jval.splits)

lemma parse_zero_exp:
  assumes "jwt_claims t ''exp'' = Some (JNum 0)"
  shows "FlagExpired \<notin> set (claims_flags now (jwt_claims t))"
  using assms by (simp add: claims_flags_def split: option.splits jval.splits)

lemma parseToken_zero_exp:
  assumes "jwt_claims t ''exp'' = Some (JNum 0)"
  shows "ServiceImproved_parseToken cfg now (Signed t) \<noteq> Inl ErrTokenExpired \<and>
         Service005_parseToken cfg now (Signed t) \<noteq> Inl ErrTokenExpired"
  using parse_zero_exp[OF assms, of now]
  by (auto simp: ServiceImproved_parseToken_def Service005_parseToken_def jwt_Parse_def
      keyFunc_def Let_def split: sum.splits option.splits if_splits)

text \<open>
  C4, as stated: every token whose signature verifies under the shared secret and whose
  \<open>exp\<close> lies in the past is refused with TokenExpired. The library reads the number 0
  in \<open>exp\<close> as no expiry: a token signed with the secret whose \<open>exp\<close> is 0 is accepted
  at instant 5000 by \<open>parseToken\<close> and by \<open>VerifyToken\<close>. And the \<open>VerifyToken\<close> of the
  \<open>Service\<close> of auth/service.go returns the error of the library as it is: for the
  token that expired at 3600 the validation error with the expired flag, which is not
  \<open>ErrTokenExpired\<close>, and for a string that is no token the validation error with the
  malformed flag, which is not \<open>ErrInvalidToken\<close>.
\<close>

theorem expired_token_counterexample:
  "jwt_alg (minted ''u-1'' ''access'' 0 0) = SigningMethodHMAC \<and>
   jwt_key (minted ''u-1'' ''access'' 0 0) = jwtSecret demo_config \<and>
   jwt_claims (minted ''u-1'' ''access'' 0 0) ''exp'' = Some (JNum 0) \<and>
   (0::int) < 5000 \<and>
   ServiceImproved_parseToken demo_config 5000 (Signed (minted ''u-1'' ''access'' 0 0)) =
     Inr (jwt_claims (minted ''u-1'' ''access'' 0 0)) \<and>
   ServiceImproved_VerifyToken demo_config 5000 (Signed (minted ''u-1'' ''access'' 0 0)) =
     Inr ''u-1'' \<and>
   Service005_VerifyToken demo_config 5000 (Signed (minted ''u-1'' ''access'' 0 0)) =
     Inr ''u-1'' \<and>
   jwt_claims (minted ''u-1'' ''access'' 0 3600) ''exp'' = Some (JNum 3600) \<and>
   (3600::int) < 5000 \<and>
   Service_VerifyToken demo_config 5000 (Signed (minted ''u-1'' ''access'' 0 3600)) =
     Inl (ErrJWT [FlagExpired]) \<and>
   Service_VerifyToken demo_config 5000 Garbage = Inl (ErrJWT [FlagMalformed])"
  by (simp add: fixtures token_eval Let_def)

text \<open>
  C4, amended: a token whose signature verifies under the shared secret (an HMAC token
  signed with it) and whose \<open>exp\<close> is a number other than 0 that lies in the past is
  refused with \<open>ErrTokenExpired\<close> by \<open>parseToken\<close>, and so by the verification and the
  refresh, of \<open>ServiceImproved\<close> and of the \<open>Service\<close> of unnamed/part_005; a token whose
  \<open>exp\<close> is the number 0 is never refused with \<open>ErrTokenExpired\<close>. \<open>ErrTokenExpired\<close> is
  another error than \<open>ErrInvalidToken\<close>, with which these services refuse a string that
  is no token and a token signed with another key whose \<open>exp\<close> lies in the future.
\<close>

theorem nonzero_expired_token_is_TokenExpired:
  assumes "jwt_alg t = SigningMethodHMAC" and "jwt_key t = jwtSecret cfg"
    and "jwt_claims t ''exp'' = Some (JNum e)" and "e \<noteq> 0" and "e < now"
    and "jwt_claims t' ''exp'' = Some (JNum e')" and "now < e'" and "jwt_key t' \<noteq> jwtSecret cfg"
    and "jwt_claims z ''exp'' = Some (JNum 0)"
  shows "ServiceImproved_parseToken cfg now (Signed t) = Inl ErrTokenExpired \<and>
         ServiceImproved_VerifyToken cfg now (Signed t) = Inl ErrTokenExpired \<and>
         ServiceImproved_RefreshToken cfg now db (Signed t) = (Inl ErrTokenExpired, db) \<and>
         Service005_parseToken cfg now (Signed t) = Inl ErrTokenExpired \<and>
         Service005_VerifyToken cfg now (Signed t) = Inl ErrTokenExpired \<and>
         Service005_RefreshToken cfg now db (Signed t) = (Inl ErrTokenExpired, db) \<and>
         ServiceImproved_parseToken cfg now (Signed z) \<noteq> Inl ErrTokenExpired \<and>
         Service005_parseToken cfg now (Signed z) \<noteq> Inl ErrTokenExpired \<and>
         ErrTokenExpired \<noteq> ErrInvalidToken \<and>
         ServiceImproved_VerifyToken cfg now Garbage = Inl ErrInvalidToken \<and>
         ServiceImproved_VerifyToken cfg now (Signed t') = Inl ErrInvalidToken \<and>
         Service005_VerifyToken cfg now Garbage = Inl ErrInvalidToken \<and>
         Service005_VerifyToken cfg now (Signed t') = Inl ErrInvalidToken"
proof -
  obtain flags where f: "jwt_Parse (keyFunc (jwtSecret cfg)) now (Signed t) = Inl flags"
      "FlagExpired \<in> set flags"
    using parse_expired[OF assms(1,3,4,5)] by blast
  obtain flags' where f': "jwt_Parse (keyFunc (jwtSecret cfg)) now (Signed t') = Inl flags'"
      "FlagExpired \<notin> set flags'"
    using parse_unexpired_bad_signature[OF assms(6,7,8)] by blast
  have g: "jwt_Parse (keyFunc (jwtSecret cfg)) now Garbage = Inl [FlagMalformed]"
    by (simp add: jwt_Parse_def)
  show ?thesis
    using f f' g parseToken_zero_exp[OF assms(9), of cfg now]
    by (simp add: ServiceImproved_parseToken_def ServiceImproved_VerifyToken_def
        ServiceImproved_RefreshToken_def Service005_parseToken_def Service005_VerifyToken_def
        Service005_RefreshToken_def)
qed

theorem nonzero_expired_token_is_TokenExpired_witness:
  "ServiceImproved_generateToken demo_config 0 ''u-1'' ''access'' 3600 =
     Inr (Signed (minted ''u-1'' ''access'' 0 3600), 3600) \<and>
   jwt_alg (minted ''u-1'' ''access'' 0 3600) = SigningMethodHMAC \<and>
   jwt_key (minted ''u-1'' ''access'' 0 3600) = jwtSecret demo_config \<and>
   jwt_claims (minted ''u-1'' ''access'' 0 3600) ''exp'' = Some (JNum 3600) \<and>
   (3600::int) \<noteq> 0 \<and> (3600::int) < 5000 \<and>
   jwt_claims ((minted ''u-1'' ''access'' 0 9000)\<lparr>jwt_key := ''forged''\<rparr>) ''exp'' =
     Some (JNum 9000) \<and>
   (5000::int) < 9000 \<and>
   jwt_key ((minted ''u-1'' ''access'' 0 9000)\<lparr>jwt_key := ''forged''\<rparr>) \<noteq> jwtSecret demo_config \<and>
   jwt_claims (minted ''u-1'' ''access'' 0 0) ''exp'' = Some (JNum 0) \<and>
   ServiceImproved_VerifyToken demo_config 5000 (Signed (minted ''u-1'' ''access'' 0 3600)) =
     Inl ErrTokenExpired \<and>
   Service005_VerifyToken demo_config 5000 (Signed (minted ''u-1'' ''access'' 0 3600)) =
     Inl ErrTokenExpired \<and>
   ServiceImproved_VerifyToken demo_config 5000
     (Signed ((minted ''u-1'' ''access'' 0 9000)\<lparr>jwt_key := ''forged''\<rparr>)) = Inl ErrInvalidToken \<and>
   ServiceImproved_VerifyToken demo_config 5000 Garbage = Inl ErrInvalidToken"
  using nonzero_expired_token_is_TokenExpired [where t = "minted ''u-1'' ''access'' 0 3600"
      and cfg = demo_config and e = 3600 and now = 5000
      and t' = "(minted ''u-1'' ''access'' 0 9000)\<lparr>jwt_key := ''forged''\<rparr>" and e' = 9000
      and z = "minted ''u-1'' ''access'' 0 0"]
  by (simp add: fixtures ServiceImproved_generateToken_def)

subsection \<open>Refresh\<close>

lemma GetUserByID_healthy:
  assumes "faults db = []"
  shows "UsersRepository_GetUserByID db userID =
     (case filter (\<lambda>u. u_ID u = userID) (users db) of
        [] \<Rightarrow> (Inl StorageErrUserNotFound, db)
      | user # _ \<Rightarrow> (Inr user, db))"
  using assms by (simp add: UsersRepository_GetUserByID_def QueryRow_def split: list.splits)

text \<open>
  For a token that \<open>ServiceImproved.parseToken\<close> accepts, of type \<open>refresh\<close>, with
  a string \<open>sub\<close>, on a working connection: \<open>ServiceImproved.RefreshToken\<close> fails with
  \<open>ErrUserNotFound\<close> when no user has this identifier, and otherwise returns the pair
  it signs for this user at this instant.
\<close>

theorem ServiceImproved_refresh_resolves_user:
  assumes "ServiceImproved_parseToken cfg now tok = Inr claims"
    and "claims ''type'' = Some (JStr ''refresh'')"
    and "claims ''sub'' = Some (JStr userID)"
    and "faults db = []"
  shows "fst (ServiceImproved_RefreshToken cfg now db tok) =
     (if list_ex (\<lambda>u. u_ID u = userID) (users db)
      then (case ServiceImproved_generateTokenPair cfg now userID of
              Inl err \<Rightarrow> Inl err
            | Inr (token, newRefreshToken, expiresAt) \<Rightarrow>
                Inr \<lparr>tr_Token = token, tr_RefreshToken = Some newRefreshToken,
                     tr_ExpiresAt = expiresAt, tr_UserID = userID\<rparr>)
      else Inl ErrUserNotFound)"
proof (cases "filter (\<lambda>u. u_ID u = userID) (users db)")
  case Nil
  then have "\<not> list_ex (\<lambda>u. u_ID u = userID) (users db)"
    by (simp add: no_rows_iff)
  then show ?thesis using assms Nil
    by (simp add: ServiceImproved_RefreshToken_def GetUserByID_healthy)
next
  case (Cons user rest)
  then have "user \<in> set (filter (\<lambda>u. u_ID u = userID) (users db))" by simp
  then have id: "u_ID user = userID" by simp
  have "list_ex (\<lambda>u. u_ID u = userID) (users db)"
    using Cons no_rows_iff[of "\<lambda>u. u_ID u = userID" "users db"] by simp
  then show ?thesis using assms Cons id
    by (simp add: ServiceImproved_RefreshToken_def GetUserByID_healthy
        ServiceImproved_generateTokenPair_def ServiceImproved_generateToken_def Let_def)
qed

theorem ServiceImproved_refresh_resolves_user_witness:
  "ServiceImproved_parseToken demo_config 100 (Signed (minted ''u-1'' ''refresh'' 0 604800)) =
     Inr (jwt_claims (minted ''u-1'' ''refresh'' 0 604800)) \<and>
   jwt_claims (minted ''u-1'' ''refresh'' 0 604800) ''type'' = Some (JStr ''refresh'') \<and>
   jwt_claims (minted ''u-1'' ''refresh'' 0 604800) ''sub'' = Some (JStr ''u-1'') \<and>
   faults empty_db = [] \<and>
   fst (ServiceImproved_RefreshToken demo_config 100 empty_db
          (Signed (minted ''u-1'' ''refresh'' 0 604800))) = Inl ErrUserNotFound"
  using ServiceImproved_refresh_resolves_user [where cfg = demo_config and now = 100
      and tok = "Signed (minted ''u-1'' ''refresh'' 0 604800)"
      and claims = "jwt_claims (minted ''u-1'' ''refresh'' 0 604800)"
      and userID = "''u-1''" and db = empty_db]
  by (simp add: fixtures ServiceImproved_parseToken_def jwt_Parse_def keyFunc_def
      claims_flags_def)

text \<open>
  C5: a refresh is to look the subject up again and to fail with UserNotFound when the
  user no longer exists. With no user in the database, a refresh token signed for
  \<open>u-1\<close> and presented within its lifetime makes \<open>ServiceImproved.RefreshToken\<close> fail
  with \<open>ErrUserNotFound\<close>, while the \<open>RefreshToken\<close> of the \<open>Service\<close> of
  unnamed/part_005, which never looks the user up, returns a new pair of tokens.
\<close>

theorem refresh_for_deleted_user:
  "Service005_generateTokenPair demo_config 0 ''u-1'' =
     Inr (Signed (minted ''u-1'' ''access'' 0 3600),
          Signed (minted ''u-1'' ''refresh'' 0 604800), 3600) \<and>
   ServiceImproved_generateTokenPair demo_config 0 ''u-1'' =
     Inr (Signed (minted ''u-1'' ''access'' 0 3600),
          Signed (minted ''u-1'' ''refresh'' 0 604800), 3600) \<and>
   fst (UsersRepository_GetUserByID empty_db ''u-1'') = Inl StorageErrUserNotFound \<and>
   fst (Service005_RefreshToken demo_config 100 empty_db
          (Signed (minted ''u-1'' ''refresh'' 0 604800))) =
     Inr \<lparr>tr_Token = Signed (minted ''u-1'' ''access'' 100 3700),
          tr_RefreshToken = Some (Signed (minted ''u-1'' ''refresh'' 100 604900)),
          tr_ExpiresAt = 3700, tr_UserID = ''u-1''\<rparr> \<and>
   fst (ServiceImproved_RefreshToken demo_config 100 empty_db
          (Signed (minted ''u-1'' ''refresh'' 0 604800))) = Inl ErrUserNotFound"
  by (simp add: fixtures token_eval db_prims Let_def)

end
